theory Spec2Isabelle
  imports Complex_Main
begin

section \<open>Tensors, parameters and errors\<close>

text \<open>
  A tensor of rank 1 to 4 is a nested list of reals, outermost dimension first; the
  floating-point numbers of the program are read as real numbers. A nested list does not
  carry the sizes below an empty dimension, so a shape test on an empty tensor accepts.
\<close>

type_synonym vec = "real list"
type_synonym mat = "real list list"
type_synonym tensor3 = "real list list list"
type_synonym tensor4 = "real list list list list"

datatype error = AssertionError | IndexError | ShapeError | ValueError
  | AttributeError | ZeroDivisionError

text \<open>
  \<^verbatim>\<open>nn.Parameter\<close>: the values and the flag read by autograd;
  \<open>set_requires_grad\<close> is \<^verbatim>\<open>p.requires_grad_(b)\<close>.
\<close>

record 'a parameter =
  data :: 'a
  requires_grad :: bool

definition Parameter :: "'a \<Rightarrow> 'a parameter" where
  "Parameter d = \<lparr>data = d, requires_grad = True\<rparr>"

definition set_requires_grad :: "bool \<Rightarrow> 'a parameter \<Rightarrow> 'a parameter" where
  "set_requires_grad b p = p\<lparr>requires_grad := b\<rparr>"

text \<open>Regularity of nested lists: what makes them tensors.\<close>

definition dim1 :: "'a list list \<Rightarrow> nat" where
  "dim1 t = (case t of [] \<Rightarrow> 0 | x # _ \<Rightarrow> length x)"

definition is_mat :: "'a list list \<Rightarrow> bool" where
  "is_mat A = list_all (\<lambda>row. length row = dim1 A) A"

definition is_tensor3 :: "'a list list list \<Rightarrow> bool" where
  "is_tensor3 t = (list_all (\<lambda>A. length A = dim1 t) t \<and> is_mat (concat t))"

definition is_tensor4 :: "'a list list list list \<Rightarrow> bool" where
  "is_tensor4 t = (list_all (\<lambda>A. length A = dim1 t) t \<and> is_tensor3 (concat t))"

definition last_dim_is :: "nat \<Rightarrow> 'a list list list \<Rightarrow> bool" where
  "last_dim_is d t = list_all (list_all (\<lambda>v. length v = d)) t"

section \<open>Library layers\<close>

text \<open>
  \<^verbatim>\<open>nn.Linear(in_features, out_features)\<close>: the weight has \<open>out_features\<close> rows of
  \<open>in_features\<close> values. The initial values are arguments, given by index.
\<close>

record Linear =
  in_features :: nat
  out_features :: nat
  weight :: "mat parameter"
  bias :: "vec parameter"

definition nn_Linear :: "nat \<Rightarrow> nat \<Rightarrow> (nat \<Rightarrow> nat \<Rightarrow> real) \<Rightarrow> (nat \<Rightarrow> real) \<Rightarrow> Linear" where
  "nn_Linear i out w b =
     \<lparr>in_features = i, out_features = out,
      weight = Parameter (map (\<lambda>r. map (w r) [0..<i]) [0..<out]),
      bias = Parameter (map b [0..<out])\<rparr>"

definition Linear_wf :: "Linear \<Rightarrow> bool" where
  "Linear_wf l =
     (length (data (weight l)) = out_features l
      \<and> list_all (\<lambda>row. length row = in_features l) (data (weight l))
      \<and> length (data (bias l)) = out_features l)"

definition dot :: "vec \<Rightarrow> vec \<Rightarrow> real" where
  "dot u v = sum_list (map2 (*) u v)"

definition Linear_forward :: "Linear \<Rightarrow> vec \<Rightarrow> vec" where
  "Linear_forward l v =
     map2 (\<lambda>row b. dot row v + b) (data (weight l)) (data (bias l))"

definition relu :: "real \<Rightarrow> real" where
  "relu x = max 0 x"

text \<open>\<^verbatim>\<open>F.softmax\<close> along one axis.\<close>

definition softmax :: "vec \<Rightarrow> vec" where
  "softmax xs = map (\<lambda>x. exp x / sum_list (map exp xs)) xs"

text \<open>
  \<^verbatim>\<open>nn.Dropout(p)\<close> on a tensor of rank 4. The library returns its input when
  \<open>p = 0\<close> or outside training, zeros when \<open>p = 1\<close>; otherwise the elements not kept
  are zeroed and the others scaled by \<open>1 / (1 - p)\<close>. The Bernoulli draw is the
  argument \<open>keep\<close>, by index.
\<close>

definition imap :: "(nat \<Rightarrow> 'a \<Rightarrow> 'b) \<Rightarrow> 'a list \<Rightarrow> 'b list" where
  "imap f xs = map (\<lambda>(i, x). f i x) (zip [0..<length xs] xs)"

definition Dropout_forward ::
  "real \<Rightarrow> bool \<Rightarrow> (nat \<Rightarrow> nat \<Rightarrow> nat \<Rightarrow> nat \<Rightarrow> bool) \<Rightarrow> tensor4 \<Rightarrow> tensor4" where
  "Dropout_forward p training keep t =
     (if p = 0 \<or> \<not> training then t
      else if p = 1 then map (map (map (map (\<lambda>_. 0)))) t
      else imap (\<lambda>b. imap (\<lambda>q. imap (\<lambda>n. imap (\<lambda>m x.
             if keep b q n m then x / (1 - p) else 0)))) t)"

section \<open>MHAttentionMap\<close>

record MHAttentionMap =
  num_heads :: nat
  hidden_dim :: nat
  dropout :: real
  q_linear :: Linear
  k_linear :: Linear
  normalize_fact :: real

text \<open>
  \<^verbatim>\<open>MHAttentionMap.__init__\<close>. The Xavier draws of the two weights are the arguments
  \<open>wq\<close> and \<open>wk\<close>; both biases are zeroed, which fails on the absent bias of
  \<^verbatim>\<open>bias=False\<close>. \<^verbatim>\<open>nn.Dropout\<close> rejects a probability outside \<open>[0, 1]\<close>, and
  \<^verbatim>\<open>float(hidden_dim / num_heads) ** -0.5\<close> divides by zero when either is 0.
\<close>

definition MHAttentionMap_init ::
  "nat \<Rightarrow> nat \<Rightarrow> nat \<Rightarrow> real \<Rightarrow> bool \<Rightarrow> (nat \<Rightarrow> nat \<Rightarrow> real) \<Rightarrow> (nat \<Rightarrow> nat \<Rightarrow> real)
   \<Rightarrow> error + MHAttentionMap" where
  "MHAttentionMap_init query_dim hidden num_hd p with_bias wq wk =
     (if p < 0 \<or> 1 < p then Inl ValueError
      else if \<not> with_bias then Inl AttributeError
      else if num_hd = 0 \<or> hidden = 0 then Inl ZeroDivisionError
      else Inr \<lparr>num_heads = num_hd, hidden_dim = hidden, dropout = p,
                q_linear = nn_Linear query_dim hidden wq (\<lambda>_. 0),
                k_linear = nn_Linear query_dim hidden wk (\<lambda>_. 0),
                normalize_fact = 1 / sqrt (real hidden / real num_hd)\<rparr>)"

text \<open>
  \<^verbatim>\<open>t.view(.., n, c)\<close> on the last axis: \<open>n\<close> consecutive chunks of \<open>c\<close> values.
\<close>

fun view_heads :: "nat \<Rightarrow> nat \<Rightarrow> 'a list \<Rightarrow> 'a list list" where
  "view_heads 0 c xs = []"
| "view_heads (Suc n) c xs = take c xs # view_heads n c (drop c xs)"

text \<open>
  The labels of \<^verbatim>\<open>torch.einsum\<close> broadcast: on the batch label \<open>b\<close> the two sizes
  agree or one of them is 1.
\<close>

definition broadcast_b :: "'a list \<Rightarrow> 'b list \<Rightarrow> ('a \<times> 'b) list option" where
  "broadcast_b qs ks =
     (if length qs = length ks then Some (zip qs ks)
      else if length qs = 1 then Some (map (\<lambda>k. (hd qs, k)) ks)
      else if length ks = 1 then Some (map (\<lambda>q. (q, hd ks)) qs)
      else None)"

text \<open>
  \<^verbatim>\<open>einsum("bqnc,bmnc->bqnm", qh * normalize_fact, kh)\<close> for one batch element:
  \<open>qh\<close> is \<open>(Q, n, c)\<close>, \<open>kh\<close> is \<open>(M, n, c)\<close>, the result \<open>(Q, n, M)\<close>.
\<close>

definition einsum_bqnm :: "nat \<Rightarrow> real \<Rightarrow> tensor3 \<Rightarrow> tensor3 \<Rightarrow> tensor3" where
  "einsum_bqnm n nf qh kh =
     map (\<lambda>qv. map (\<lambda>h. map (\<lambda>kv. dot (map (\<lambda>x. x * nf) (qv ! h)) (kv ! h)) kh) [0..<n]) qh"

text \<open>
  Lines 37 to 43 of \<^verbatim>\<open>MHAttentionMap.forward\<close>: the scores before the softmax.
\<close>

definition numrows :: "'a list list \<Rightarrow> nat" where
  "numrows t = sum_list (map length t)"

definition MHAttentionMap_scores ::
  "MHAttentionMap \<Rightarrow> tensor3 \<Rightarrow> tensor3 \<Rightarrow> error + tensor4" where
  "MHAttentionMap_scores am q k =
     (let n = num_heads am; c = hidden_dim am div num_heads am in
      if \<not> (is_tensor3 q \<and> is_tensor3 k \<and> Linear_wf (q_linear am) \<and> Linear_wf (k_linear am))
      then Inl ShapeError
      else if \<not> last_dim_is (in_features (q_linear am)) q then Inl ShapeError
      else if \<not> last_dim_is (in_features (k_linear am)) k then Inl ShapeError
      else if n = 0 then Inl ZeroDivisionError
      else if numrows q * out_features (q_linear am) \<noteq> numrows q * (n * c) then Inl ShapeError
      else if numrows k * out_features (k_linear am) \<noteq> numrows k * (n * c) then Inl ShapeError
      else
        (let qh = map (map (\<lambda>v. view_heads n c (Linear_forward (q_linear am) v))) q;
             kh = map (map (\<lambda>v. view_heads n c (Linear_forward (k_linear am) v))) k
         in case broadcast_b qh kh of
              None \<Rightarrow> Inl ShapeError
            | Some qk \<Rightarrow> Inr (map (\<lambda>(qb, kb). einsum_bqnm n (normalize_fact am) qb kb) qk)))"

text \<open>
  Line 45: \<^verbatim>\<open>F.softmax(weights.flatten(2), dim=-1).view(weights.size())\<close> on one
  \<open>(n, M)\<close> block: the block is flattened to \<open>n * M\<close> values, normalised, and cut
  back into \<open>n\<close> rows of \<open>M\<close>.
\<close>

definition flatten_softmax_view :: "mat \<Rightarrow> mat" where
  "flatten_softmax_view w = view_heads (length w) (dim1 w) (softmax (concat w))"

definition MHAttentionMap_forward ::
  "MHAttentionMap \<Rightarrow> bool \<Rightarrow> (nat \<Rightarrow> nat \<Rightarrow> nat \<Rightarrow> nat \<Rightarrow> bool) \<Rightarrow> tensor3 \<Rightarrow> tensor3
   \<Rightarrow> error + tensor4" where
  "MHAttentionMap_forward am training keep q k =
     (case MHAttentionMap_scores am q k of
        Inl e \<Rightarrow> Inl e
      | Inr weights \<Rightarrow>
          Inr (Dropout_forward (dropout am) training keep
                 (map (map flatten_softmax_view) weights)))"

text \<open>The sums over the model axis \<open>M\<close>, one for each (batch, query, head).\<close>

definition head_sums :: "tensor4 \<Rightarrow> tensor3" where
  "head_sums w = map (map (map sum_list)) w"

text \<open>
  An attention map with two heads on \<open>hidden_dim = 2\<close> and \<open>query_dim = 1\<close>,
  applied to one query and two keys.
\<close>

definition keep_all :: "nat \<Rightarrow> nat \<Rightarrow> nat \<Rightarrow> nat \<Rightarrow> bool" where
  "keep_all b q n m = True"

definition ones :: "nat \<Rightarrow> nat \<Rightarrow> real" where
  "ones r c = 1"

definition attention_module_example :: MHAttentionMap where
  "attention_module_example = projr (MHAttentionMap_init 1 2 2 0 True ones ones)"

definition attention_example :: "error + tensor4" where
  "attention_example =
     MHAttentionMap_forward attention_module_example True keep_all [[[1]]] [[[0], [0]]]"

section \<open>PoseHeadSmallLinear\<close>

text \<open>
  \<^verbatim>\<open>nn.GroupNorm(num_groups, num_channels)\<close> with its affine weight and bias. The
  constructor rejects a channel count that the groups do not divide.
\<close>

record GroupNorm =
  num_groups :: nat
  num_channels :: nat
  eps :: real
  gn_weight :: "vec parameter"
  gn_bias :: "vec parameter"

definition nn_GroupNorm :: "nat \<Rightarrow> nat \<Rightarrow> error + GroupNorm" where
  "nn_GroupNorm g c =
     (if g = 0 then Inl ZeroDivisionError
      else if c mod g \<noteq> 0 then Inl ValueError
      else Inr \<lparr>num_groups = g, num_channels = c, eps = 1 / 100000,
                gn_weight = Parameter (replicate c 1),
                gn_bias = Parameter (replicate c 0)\<rparr>)"

text \<open>
  Line 94 permutes \<open>x\<close> to channels-first for \<open>g1\<close> and back, so the layer is given
  here on one batch element with the channel axis last: \<open>xb\<close> has one row of
  \<open>num_channels\<close> values for each model. A group is \<open>cg\<close> consecutive channels;
  mean and (biased) variance are taken over the group's channels and all models.
\<close>

definition group_values :: "nat \<Rightarrow> nat \<Rightarrow> mat \<Rightarrow> vec" where
  "group_values g cg xb = concat (map (\<lambda>row. take cg (drop (g * cg) row)) xb)"

definition mean :: "vec \<Rightarrow> real" where
  "mean vs = sum_list vs / real (length vs)"

definition variance :: "vec \<Rightarrow> real" where
  "variance vs = sum_list (map (\<lambda>v. (v - mean vs)\<^sup>2) vs) / real (length vs)"

definition GroupNorm_forward :: "GroupNorm \<Rightarrow> mat \<Rightarrow> mat" where
  "GroupNorm_forward gn xb =
     (let cg = num_channels gn div num_groups gn in
      map (imap (\<lambda>c x.
             let vs = group_values (c div cg) cg xb in
             (x - mean vs) / sqrt (variance vs + eps gn) * data (gn_weight gn) ! c
               + data (gn_bias gn) ! c)) xb)"

text \<open>The members of an \<^verbatim>\<open>nn.Sequential\<close>, applied to one feature vector.\<close>

datatype Module = Lin Linear | ReLU

fun Module_forward :: "Module \<Rightarrow> vec \<Rightarrow> vec" where
  "Module_forward (Lin l) v = Linear_forward l v"
| "Module_forward ReLU v = map relu v"

definition Sequential_forward :: "Module list \<Rightarrow> vec \<Rightarrow> vec" where
  "Sequential_forward ms v = fold Module_forward ms v"

text \<open>
  The width that leaves a stack entered with width \<open>n\<close>, or \<open>None\<close> where a linear
  layer meets a width that is not its \<open>in_features\<close> (the library raises there).
\<close>

fun Sequential_out :: "Module list \<Rightarrow> nat \<Rightarrow> nat option" where
  "Sequential_out [] n = Some n"
| "Sequential_out (Lin l # ms) n =
     (if Linear_wf l \<and> in_features l = n then Sequential_out ms (out_features l) else None)"
| "Sequential_out (ReLU # ms) n = Sequential_out ms n"

record PoseHeadSmallLinear =
  num_dims :: nat
  num_heads :: nat
  l1 :: Linear
  g1 :: GroupNorm
  l2 :: "Module list"
  l3 :: Linear
  l4 :: "Module list"
  l5 :: Linear

text \<open>
  \<^verbatim>\<open>PoseHeadSmallLinear.__init__\<close>. The loop of lines 86 to 89 draws every linear
  weight anew and zeroes every linear bias; the draws are the argument \<open>w\<close>, by layer
  (0 for \<open>l1\<close>, 1 to 4 for \<open>l2\<close>, 5 for \<open>l3\<close>, 6 to 9 for \<open>l4\<close>, 10 for \<open>l5\<close>),
  row and column.
\<close>

definition halving_stack :: "nat \<Rightarrow> nat \<Rightarrow> (nat \<Rightarrow> nat \<Rightarrow> nat \<Rightarrow> real) \<Rightarrow> Module list" where
  "halving_stack num_feat first w =
     concat (map (\<lambda>i. [Lin (nn_Linear (num_feat div 2 ^ i) (num_feat div 2 ^ (i + 1))
                          (w (first + i)) (\<lambda>_. 0)), ReLU]) [0..<4])"

definition PoseHeadSmallLinear_init ::
  "nat \<Rightarrow> nat \<Rightarrow> (nat \<Rightarrow> nat \<Rightarrow> nat \<Rightarrow> real) \<Rightarrow> error + PoseHeadSmallLinear" where
  "PoseHeadSmallLinear_init dims heads w =
     (case nn_GroupNorm 8 dims of
        Inl e \<Rightarrow> Inl e
      | Inr gn \<Rightarrow>
          (let num_feat = dims + heads in
           Inr \<lparr>num_dims = dims, num_heads = heads,
                l1 = nn_Linear dims dims (w 0) (\<lambda>_. 0),
                g1 = gn,
                l2 = halving_stack num_feat 1 w,
                l3 = nn_Linear (num_feat div 2 ^ 4) 1 (w 5) (\<lambda>_. 0),
                l4 = halving_stack num_feat 6 w,
                l5 = nn_Linear (num_feat div 2 ^ 4) 6 (w 10) (\<lambda>_. 0)\<rparr>))"

text \<open>
  Lines 93 to 95 on one batch element: \<open>l1\<close>, \<open>g1\<close>, ReLU.
\<close>

definition refine_features :: "PoseHeadSmallLinear \<Rightarrow> mat \<Rightarrow> mat" where
  "refine_features ph xb =
     map (map relu) (GroupNorm_forward (g1 ph) (map (Linear_forward (l1 ph)) xb))"

text \<open>
  Line 96 on one batch element: the refined features \<open>xb\<close> of shape \<open>(M, C)\<close> are
  repeated for every query and joined, along the last axis, with the attention block
  \<open>(Q, heads, M)\<close> permuted to \<open>(Q, M, heads)\<close>.
\<close>

definition cat_features :: "mat \<Rightarrow> tensor3 \<Rightarrow> tensor3" where
  "cat_features xb attb =
     map (\<lambda>attq. imap (\<lambda>m xrow. xrow @ map (\<lambda>hrow. hrow ! m) attq) xb) attb"

definition PoseHead_fused :: "PoseHeadSmallLinear \<Rightarrow> tensor3 \<Rightarrow> tensor4 \<Rightarrow> tensor4" where
  "PoseHead_fused ph x attention =
     map (\<lambda>(xb, attb). cat_features (refine_features ph xb) attb) (zip x attention)"

text \<open>
  Lines 99 to 101 on the fused rows of one (batch, query): \<open>l2\<close>, \<open>l3\<close>, ReLU, the
  last axis of size 1 squeezed, softmax over the models.
\<close>

definition class_branch :: "PoseHeadSmallLinear \<Rightarrow> mat \<Rightarrow> vec" where
  "class_branch ph rows =
     softmax (map (\<lambda>v. relu (hd (Linear_forward (l3 ph) (Sequential_forward (l2 ph) v)))) rows)"

text \<open>Lines 104 and 105 on one fused row: \<open>l4\<close>, then \<open>l5\<close>.\<close>

definition pose_branch :: "PoseHeadSmallLinear \<Rightarrow> vec \<Rightarrow> vec" where
  "pose_branch ph v = Linear_forward (l5 ph) (Sequential_forward (l4 ph) v)"

text \<open>
  The shapes the library checks, in the order of the source: the input of \<open>l1\<close>; in
  \<^verbatim>\<open>F.group_norm\<close> first that a group holds more than one value
  (\<^verbatim>\<open>ValueError\<close>), then the channel count; in \<^verbatim>\<open>torch.cat\<close> the batch and model
  sizes of the two tensors; then the widths along the two branches. \<open>l3\<close> ends in one
  value, which \<^verbatim>\<open>squeeze(-1)\<close> removes.
\<close>

definition group_norm_ok :: "GroupNorm \<Rightarrow> nat \<Rightarrow> bool" where
  "group_norm_ok gn c =
     (c = num_channels gn \<and> num_channels gn mod num_groups gn = 0
      \<and> length (data (gn_weight gn)) = c \<and> length (data (gn_bias gn)) = c)"

definition cat_ok :: "tensor3 \<Rightarrow> tensor4 \<Rightarrow> bool" where
  "cat_ok x attention =
     (is_tensor4 attention \<and> length x = length attention
      \<and> list_all (\<lambda>(xb, attb). list_all (list_all (\<lambda>hrow. length hrow = length xb)) attb)
           (zip x attention))"

definition class_ok :: "PoseHeadSmallLinear \<Rightarrow> vec \<Rightarrow> bool" where
  "class_ok ph v =
     (Sequential_out (l2 ph) (length v) = Some (in_features (l3 ph))
      \<and> Linear_wf (l3 ph) \<and> out_features (l3 ph) = 1)"

definition pose_ok :: "PoseHeadSmallLinear \<Rightarrow> vec \<Rightarrow> bool" where
  "pose_ok ph v =
     (Sequential_out (l4 ph) (length v) = Some (in_features (l5 ph)) \<and> Linear_wf (l5 ph))"

definition PoseHeadSmallLinear_forward ::
  "PoseHeadSmallLinear \<Rightarrow> tensor3 \<Rightarrow> tensor4 \<Rightarrow> error + tensor3 \<times> tensor4" where
  "PoseHeadSmallLinear_forward ph x attention =
     (if \<not> (is_tensor3 x \<and> Linear_wf (l1 ph) \<and> last_dim_is (in_features (l1 ph)) x)
      then Inl ShapeError
      else if num_groups (g1 ph) = 0 then Inl ZeroDivisionError
      else if length x * out_features (l1 ph) div num_groups (g1 ph) * dim1 x = 1
      then Inl ValueError
      else if \<not> group_norm_ok (g1 ph) (out_features (l1 ph)) then Inl ShapeError
      else if \<not> cat_ok x attention then Inl ShapeError
      else
        (let fused = PoseHead_fused ph x attention in
         if \<not> list_all (list_all (list_all (class_ok ph))) fused then Inl ShapeError
         else if \<not> list_all (list_all (list_all (pose_ok ph))) fused then Inl ShapeError
         else Inr (map (map (class_branch ph)) fused,
                   map (map (map (pose_branch ph))) fused)))"

text \<open>
  The classification branch in the words of the specification: the halving stack, the
  projection to a scalar, then directly the softmax over the models.
\<close>

definition class_branch_spec :: "PoseHeadSmallLinear \<Rightarrow> mat \<Rightarrow> vec" where
  "class_branch_spec ph rows =
     softmax (map (\<lambda>v. hd (Linear_forward (l3 ph) (Sequential_forward (l2 ph) v))) rows)"

text \<open>
  The shapes \<^verbatim>\<open>PoseHeadSmallLinear.__init__\<close> gives a head of \<open>dims\<close> feature
  channels and \<open>heads\<close> attention heads (lines 60 to 82), whatever the values of its
  parameters: \<open>l1\<close> keeps the width, \<open>g1\<close> has 8 groups, each of \<open>l2\<close> and \<open>l4\<close>
  is four linear layers that halve \<open>dims + heads\<close>, each followed by a ReLU, \<open>l3\<close>
  ends in 1 value and \<open>l5\<close> in 6.
\<close>

definition Linear_shape :: "Linear \<Rightarrow> nat \<times> nat" where
  "Linear_shape l = (in_features l, out_features l)"

fun Module_shape :: "Module \<Rightarrow> (nat \<times> nat) option" where
  "Module_shape (Lin l) = Some (Linear_shape l)"
| "Module_shape ReLU = None"

fun Module_wf :: "Module \<Rightarrow> bool" where
  "Module_wf (Lin l) = Linear_wf l"
| "Module_wf ReLU = True"

definition halving_stack_arch :: "nat \<Rightarrow> Module list \<Rightarrow> bool" where
  "halving_stack_arch num_feat ms =
     (map Module_shape ms
        = concat (map (\<lambda>i. [Some (num_feat div 2 ^ i, num_feat div 2 ^ (i + 1)), None]) [0..<4])
      \<and> list_all Module_wf ms)"

definition PoseHead_arch :: "nat \<Rightarrow> nat \<Rightarrow> PoseHeadSmallLinear \<Rightarrow> bool" where
  "PoseHead_arch dims heads ph =
     (dims mod 8 = 0
      \<and> Linear_wf (l1 ph) \<and> Linear_shape (l1 ph) = (dims, dims)
      \<and> num_groups (g1 ph) = 8 \<and> group_norm_ok (g1 ph) dims
      \<and> halving_stack_arch (dims + heads) (l2 ph)
      \<and> Linear_wf (l3 ph) \<and> Linear_shape (l3 ph) = ((dims + heads) div 2 ^ 4, 1)
      \<and> halving_stack_arch (dims + heads) (l4 ph)
      \<and> Linear_wf (l5 ph) \<and> Linear_shape (l5 ph) = ((dims + heads) div 2 ^ 4, 6))"

text \<open>
  A head whose bias of \<open>l5\<close> holds other values, as after an optimizer step, and the
  bias that sends the features \<open>feat\<close> of one (batch, query, model) to the pose \<open>t\<close>.
\<close>

definition with_pose_bias :: "PoseHeadSmallLinear \<Rightarrow> vec \<Rightarrow> PoseHeadSmallLinear" where
  "with_pose_bias ph b = ph\<lparr>l5 := (l5 ph)\<lparr>bias := (bias (l5 ph))\<lparr>data := b\<rparr>\<rparr>\<rparr>"

definition pose_bias_for :: "PoseHeadSmallLinear \<Rightarrow> vec \<Rightarrow> vec \<Rightarrow> vec" where
  "pose_bias_for ph feat t = map2 (\<lambda>row tj. tj - dot row feat) (data (weight (l5 ph))) t"

text \<open>
  A head of 8 feature channels and 8 attention heads, on one batch element with two
  models and one query. Its weights are 0 in \<open>l1\<close>, \<open>-1\<close> in \<open>l3\<close> and 1 elsewhere.
\<close>

definition head_weights_example :: "nat \<Rightarrow> nat \<Rightarrow> nat \<Rightarrow> real" where
  "head_weights_example layer r c = (if layer = 0 then 0 else if layer = 5 then - 1 else 1)"

definition pose_head_example :: PoseHeadSmallLinear where
  "pose_head_example = projr (PoseHeadSmallLinear_init 8 8 head_weights_example)"

definition model_features_example :: tensor3 where
  "model_features_example = [[replicate 8 1, replicate 8 2]]"

definition head_attention_example :: tensor4 where
  "head_attention_example = [[replicate 8 [1/32, 3/32]]]"

section \<open>DETRpose\<close>

text \<open>
  Modelled from the spec: \<^verbatim>\<open>NestedTensor\<close> of \<^verbatim>\<open>util.misc\<close>, the padded batch
  with its validity mask; \<^verbatim>\<open>decompose\<close> returns the two fields, and the mask may be
  absent.
\<close>

record NestedTensor =
  tensors :: tensor4
  mask :: "bool list list list option"

definition decompose :: "NestedTensor \<Rightarrow> tensor4 \<times> bool list list list option" where
  "decompose nt = (tensors nt, mask nt)"

text \<open>
  The argument of \<^verbatim>\<open>DETRpose.forward\<close>: a padded batch, a list of images or one
  tensor of images (line 128).
\<close>

datatype samples = SamplesNested NestedTensor | SamplesList "tensor3 list"
  | SamplesTensor tensor4

text \<open>
  Modelled from the spec: the detector object handed to \<^verbatim>\<open>DETRpose.__init__\<close>, with
  the interface the forward pass uses. Its code is not part of the module: the backbone,
  the input projection and the transformer are functions of the values of the detector's
  parameters and of their arguments; the two heads act on each hidden vector, so they
  keep the layer, batch and query axes. \<open>d_model\<close> and \<open>nhead\<close> are those of the
  transformer.
\<close>

record DETR =
  detr_parameters :: "vec parameter list"
  query_embed :: "mat parameter"
  backbone :: "vec list \<Rightarrow> NestedTensor \<Rightarrow> NestedTensor list \<times> tensor4 list"
  input_proj :: "vec list \<Rightarrow> tensor4 \<Rightarrow> tensor4"
  transformer ::
    "vec list \<Rightarrow> tensor4 \<Rightarrow> bool list list list \<Rightarrow> mat \<Rightarrow> tensor4 \<Rightarrow> tensor4 \<times> tensor4"
  class_embed :: "vec list \<Rightarrow> vec \<Rightarrow> vec"
  bbox_embed :: "vec list \<Rightarrow> vec \<Rightarrow> vec"
  aux_loss :: bool
  d_model :: nat
  nhead :: nat

text \<open>
  Modelled from the spec: \<^verbatim>\<open>Model3DNet\<close>, whose encoder gives the shared set of
  \<open>M\<close> model embeddings and whose decoder gives the point cloud, the scale and the
  centre.
\<close>

record 'o Model3DNet =
  m3d_parameters :: "vec parameter list"
  forward_encoder :: "vec list \<Rightarrow> mat"
  forward_decoder :: "vec list \<Rightarrow> mat \<Rightarrow> 'o \<times> 'o \<times> 'o"

text \<open>
  \<^verbatim>\<open>requires_grad\<close> of every parameter of a module, as \<^verbatim>\<open>module.parameters()\<close>
  lists them, and \<^verbatim>\<open>p.requires_grad_(b)\<close> on each of them.
\<close>

definition Linear_flags :: "Linear \<Rightarrow> bool list" where
  "Linear_flags l = [requires_grad (weight l), requires_grad (bias l)]"

definition Linear_set_grad :: "bool \<Rightarrow> Linear \<Rightarrow> Linear" where
  "Linear_set_grad b l =
     l\<lparr>weight := set_requires_grad b (weight l), bias := set_requires_grad b (bias l)\<rparr>"

definition GroupNorm_flags :: "GroupNorm \<Rightarrow> bool list" where
  "GroupNorm_flags gn = [requires_grad (gn_weight gn), requires_grad (gn_bias gn)]"

definition GroupNorm_set_grad :: "bool \<Rightarrow> GroupNorm \<Rightarrow> GroupNorm" where
  "GroupNorm_set_grad b gn =
     gn\<lparr>gn_weight := set_requires_grad b (gn_weight gn),
        gn_bias := set_requires_grad b (gn_bias gn)\<rparr>"

fun Module_flags :: "Module \<Rightarrow> bool list" where
  "Module_flags (Lin l) = Linear_flags l"
| "Module_flags ReLU = []"

fun Module_set_grad :: "bool \<Rightarrow> Module \<Rightarrow> Module" where
  "Module_set_grad b (Lin l) = Lin (Linear_set_grad b l)"
| "Module_set_grad b ReLU = ReLU"

definition MHAttentionMap_flags :: "MHAttentionMap \<Rightarrow> bool list" where
  "MHAttentionMap_flags am = Linear_flags (q_linear am) @ Linear_flags (k_linear am)"

definition MHAttentionMap_set_grad :: "bool \<Rightarrow> MHAttentionMap \<Rightarrow> MHAttentionMap" where
  "MHAttentionMap_set_grad b am =
     am\<lparr>q_linear := Linear_set_grad b (q_linear am),
        k_linear := Linear_set_grad b (k_linear am)\<rparr>"

definition PoseHead_flags :: "PoseHeadSmallLinear \<Rightarrow> bool list" where
  "PoseHead_flags ph =
     Linear_flags (l1 ph) @ GroupNorm_flags (g1 ph) @ concat (map Module_flags (l2 ph))
       @ Linear_flags (l3 ph) @ concat (map Module_flags (l4 ph)) @ Linear_flags (l5 ph)"

definition PoseHead_set_grad :: "bool \<Rightarrow> PoseHeadSmallLinear \<Rightarrow> PoseHeadSmallLinear" where
  "PoseHead_set_grad b ph =
     ph\<lparr>l1 := Linear_set_grad b (l1 ph), g1 := GroupNorm_set_grad b (g1 ph),
        l2 := map (Module_set_grad b) (l2 ph), l3 := Linear_set_grad b (l3 ph),
        l4 := map (Module_set_grad b) (l4 ph), l5 := Linear_set_grad b (l5 ph)\<rparr>"

definition DETR_flags :: "DETR \<Rightarrow> bool list" where
  "DETR_flags d = map requires_grad (detr_parameters d) @ [requires_grad (query_embed d)]"

definition DETR_set_grad :: "bool \<Rightarrow> DETR \<Rightarrow> DETR" where
  "DETR_set_grad b d =
     d\<lparr>detr_parameters := map (set_requires_grad b) (detr_parameters d),
       query_embed := set_requires_grad b (query_embed d)\<rparr>"

definition Model3DNet_flags :: "'o Model3DNet \<Rightarrow> bool list" where
  "Model3DNet_flags n = map requires_grad (m3d_parameters n)"

definition Model3DNet_set_grad :: "bool \<Rightarrow> 'o Model3DNet \<Rightarrow> 'o Model3DNet" where
  "Model3DNet_set_grad b n =
     n\<lparr>m3d_parameters := map (set_requires_grad b) (m3d_parameters n)\<rparr>"

text \<open>
  The module while \<^verbatim>\<open>DETRpose.__init__\<close> runs: a submodule is registered when it is
  assigned to an attribute, and \<^verbatim>\<open>self.parameters()\<close> reaches the parameters of the
  submodules registered so far.
\<close>

record 'o registry =
  reg_detr :: "DETR option"
  reg_model_3d_net :: "'o Model3DNet option"
  reg_bbox_attention :: "MHAttentionMap option"
  reg_pose_head :: "PoseHeadSmallLinear option"

definition registry_set_grad :: "bool \<Rightarrow> 'o registry \<Rightarrow> 'o registry" where
  "registry_set_grad b r =
     \<lparr>reg_detr = map_option (DETR_set_grad b) (reg_detr r),
      reg_model_3d_net = map_option (Model3DNet_set_grad b) (reg_model_3d_net r),
      reg_bbox_attention = map_option (MHAttentionMap_set_grad b) (reg_bbox_attention r),
      reg_pose_head = map_option (PoseHead_set_grad b) (reg_pose_head r)\<rparr>"

record 'o DETRpose =
  detr :: DETR
  model_3d_net :: "'o Model3DNet"
  bbox_attention :: MHAttentionMap
  pose_head :: PoseHeadSmallLinear

text \<open>
  \<^verbatim>\<open>DETRpose.__init__(detr, freeze_detr)\<close>, in the order of lines 112 to 125. The
  network built by \<^verbatim>\<open>Model3DNet()\<close> is the argument \<open>net\<close>; \<open>wq\<close>, \<open>wk\<close> and
  \<open>wh\<close> are the weights drawn for the attention map and the head.
\<close>

definition DETRpose_init ::
  "DETR \<Rightarrow> bool \<Rightarrow> 'o Model3DNet \<Rightarrow> (nat \<Rightarrow> nat \<Rightarrow> real) \<Rightarrow> (nat \<Rightarrow> nat \<Rightarrow> real)
   \<Rightarrow> (nat \<Rightarrow> nat \<Rightarrow> nat \<Rightarrow> real) \<Rightarrow> error + 'o DETRpose" where
  "DETRpose_init d freeze_detr net wq wk wh =
     (let r0 = \<lparr>reg_detr = Some d, reg_model_3d_net = None, reg_bbox_attention = None,
                reg_pose_head = None\<rparr>;
          r1 = (if freeze_detr then registry_set_grad False r0 else r0);
          hidden = d_model d; nheads = nhead d;
          r2 = r1\<lparr>reg_model_3d_net := Some net\<rparr>
      in case MHAttentionMap_init hidden hidden nheads 0 True wq wk of
           Inl e \<Rightarrow> Inl e
         | Inr am \<Rightarrow>
             (let r3 = r2\<lparr>reg_bbox_attention := Some am\<rparr>
              in case PoseHeadSmallLinear_init hidden nheads wh of
                   Inl e \<Rightarrow> Inl e
                 | Inr ph \<Rightarrow>
                     (let r4 = r3\<lparr>reg_pose_head := Some ph\<rparr>
                      in case (reg_detr r4, reg_model_3d_net r4, reg_bbox_attention r4,
                               reg_pose_head r4) of
                           (Some d', Some n', Some a', Some p') \<Rightarrow>
                             Inr \<lparr>detr = d', model_3d_net = n', bbox_attention = a',
                                  pose_head = p'\<rparr>
                         | _ \<Rightarrow> Inl AttributeError)))"

text \<open>The result record of the forward pass; \<open>aux_outputs\<close> is an optional key.\<close>

record detection =
  pred_logits :: tensor3
  pred_boxes :: tensor3

record 'o out = detection +
  aux_outputs :: "detection list option"
  pose_class :: tensor3
  pose_6dof :: tensor4
  pred_model_points :: 'o
  pred_model_scales :: 'o
  pred_model_centers :: 'o

text \<open>
  Modelled from the spec: \<^verbatim>\<open>_set_aux_loss\<close> of the detector, which packages the
  outputs of every decoder layer except the last, one entry for each intermediate layer
  with its own class logits and box coordinates.
\<close>

definition set_aux_loss :: "tensor4 \<Rightarrow> tensor4 \<Rightarrow> detection list" where
  "set_aux_loss outputs_class outputs_coord =
     map (\<lambda>(a, b). \<lparr>pred_logits = a, pred_boxes = b\<rparr>)
       (zip (butlast outputs_class) (butlast outputs_coord))"

definition sigmoid :: "real \<Rightarrow> real" where
  "sigmoid x = 1 / (1 + exp (- x))"

definition detr_values :: "DETR \<Rightarrow> vec list" where
  "detr_values d = map data (detr_parameters d)"

text \<open>
  Lines 128 to 131: the input is padded by \<^verbatim>\<open>nested_tensor_from_tensor_list\<close> of
  \<^verbatim>\<open>util.misc\<close>, the argument \<open>pad\<close>, unless it is a padded batch already; then the
  backbone gives the feature maps and the positional encodings.
\<close>

definition DETRpose_features ::
  "(tensor3 list \<Rightarrow> NestedTensor) \<Rightarrow> 'o DETRpose \<Rightarrow> samples
   \<Rightarrow> NestedTensor list \<times> tensor4 list" where
  "DETRpose_features pad m s =
     backbone (detr m) (detr_values (detr m))
       (case s of SamplesNested nt \<Rightarrow> nt | SamplesList l \<Rightarrow> pad l | SamplesTensor t \<Rightarrow> pad t)"

text \<open>
  Lines 133 to 138: the batch size and the hidden states \<open>hs\<close> of the decoder layers,
  of shape \<open>(L, B, Q, hidden)\<close>. Indexing an empty list with \<open>-1\<close> raises, and the
  assertion of line 136 fails on an absent mask.
\<close>

definition DETRpose_hidden_states ::
  "(tensor3 list \<Rightarrow> NestedTensor) \<Rightarrow> 'o DETRpose \<Rightarrow> samples \<Rightarrow> error + nat \<times> tensor4" where
  "DETRpose_hidden_states pad m s =
     (let (features, pos) = DETRpose_features pad m s in
      if features = [] then Inl IndexError
      else
        (let bs = length (tensors (last features));
             (src, msk) = decompose (last features)
         in case msk of
              None \<Rightarrow> Inl AssertionError
            | Some mk \<Rightarrow>
                (let src_proj = input_proj (detr m) (detr_values (detr m)) src in
                 if pos = [] then Inl IndexError
                 else Inr (bs, fst (transformer (detr m) (detr_values (detr m)) src_proj mk
                                      (data (query_embed (detr m))) (last pos))))))"

text \<open>
  Lines 162 to 169: the attention between the last layer's queries and the model
  features, then the head on the model features and the attention.
\<close>

definition DETRpose_pose_stages ::
  "'o DETRpose \<Rightarrow> bool \<Rightarrow> (nat \<Rightarrow> nat \<Rightarrow> nat \<Rightarrow> nat \<Rightarrow> bool) \<Rightarrow> tensor3 \<Rightarrow> tensor3
   \<Rightarrow> error + tensor4 \<times> tensor3 \<times> tensor4" where
  "DETRpose_pose_stages m training keep q model_3d_feat =
     (case MHAttentionMap_forward (bbox_attention m) training keep q model_3d_feat of
        Inl e \<Rightarrow> Inl e
      | Inr bbox_3dmodel_attention \<Rightarrow>
          (case PoseHeadSmallLinear_forward (pose_head m) model_3d_feat
                  bbox_3dmodel_attention of
             Inl e \<Rightarrow> Inl e
           | Inr (pc, p6) \<Rightarrow> Inr (bbox_3dmodel_attention, pc, p6)))"

text \<open>
  \<^verbatim>\<open>DETRpose.forward\<close>. \<open>training\<close> is the mode of the module and \<open>keep\<close> the draw
  of its dropout layer. The outputs of the two detector heads are tensors: nested lists
  that are not regular are refused.
\<close>

definition DETRpose_forward ::
  "(tensor3 list \<Rightarrow> NestedTensor) \<Rightarrow> 'o DETRpose \<Rightarrow> bool \<Rightarrow> (nat \<Rightarrow> nat \<Rightarrow> nat \<Rightarrow> nat \<Rightarrow> bool)
   \<Rightarrow> samples \<Rightarrow> error + 'o out" where
  "DETRpose_forward pad m training keep s =
     (case DETRpose_hidden_states pad m s of
        Inl e \<Rightarrow> Inl e
      | Inr (bs, hs) \<Rightarrow>
          (let outputs_class = map (map (map (class_embed (detr m) (detr_values (detr m))))) hs;
               outputs_coord =
                 map (map (map (\<lambda>v. map sigmoid (bbox_embed (detr m) (detr_values (detr m)) v))))
                   hs
           in if \<not> (is_tensor4 outputs_class \<and> is_tensor4 outputs_coord) then Inl ShapeError
              else if hs = [] then Inl IndexError
              else
                (let aux = (if aux_loss (detr m)
                            then Some (set_aux_loss outputs_class outputs_coord) else None);
                     model_3d_feat =
                       forward_encoder (model_3d_net m)
                         (map data (m3d_parameters (model_3d_net m)));
                     pred_model_point =
                       forward_decoder (model_3d_net m)
                         (map data (m3d_parameters (model_3d_net m))) model_3d_feat
                 in case DETRpose_pose_stages m training keep (last hs)
                           (replicate bs model_3d_feat) of
                      Inl e \<Rightarrow> Inl e
                    | Inr (att, pc, p6) \<Rightarrow>
                        Inr \<lparr>pred_logits = last outputs_class,
                             pred_boxes = last outputs_coord,
                             aux_outputs = aux, pose_class = pc, pose_6dof = p6,
                             pred_model_points = fst pred_model_point,
                             pred_model_scales = fst (snd pred_model_point),
                             pred_model_centers = snd (snd pred_model_point)\<rparr>)))"

text \<open>The sizes of a tensor of rank 3, one for every row.\<close>

definition shape3 :: "tensor3 \<Rightarrow> nat list list" where
  "shape3 t = map (map length) t"

text \<open>
  Lines 37 to 45 of \<^verbatim>\<open>MHAttentionMap.forward\<close> on the queries and the keys of one
  batch element.
\<close>

definition MHAttentionMap_block :: "MHAttentionMap \<Rightarrow> mat \<Rightarrow> mat \<Rightarrow> tensor3" where
  "MHAttentionMap_block am qb kb =
     (let n = MHAttentionMap.num_heads am; c = hidden_dim am div MHAttentionMap.num_heads am in
      map flatten_softmax_view
        (einsum_bqnm n (normalize_fact am)
           (map (\<lambda>v. view_heads n c (Linear_forward (q_linear am) v)) qb)
           (map (\<lambda>v. view_heads n c (Linear_forward (k_linear am) v)) kb)))"

text \<open>
  A detector of two decoder layers and one query on \<open>d_model = 8\<close> with 8 heads and
  auxiliary outputs, a network of two models, and a batch of one image, with and
  without its mask.
\<close>

definition detr_example :: DETR where
  "detr_example =
     \<lparr>detr_parameters = [Parameter [1]], query_embed = Parameter [replicate 8 0],
      backbone = (\<lambda>ps nt. ([nt], [tensors nt])),
      input_proj = (\<lambda>ps t. t),
      transformer = (\<lambda>ps src mk qe pos. ([[qe], [qe]], src)),
      class_embed = (\<lambda>ps v. [0, 0]),
      bbox_embed = (\<lambda>ps v. [0, 0, 0, 0]),
      aux_loss = True, d_model = 8, nhead = 8\<rparr>"

definition model_3d_net_example :: "mat Model3DNet" where
  "model_3d_net_example =
     \<lparr>m3d_parameters = [Parameter [1]],
      forward_encoder = (\<lambda>ps. [replicate 8 1, replicate 8 2]),
      forward_decoder = (\<lambda>ps f. (f, f, f))\<rparr>"

definition pad_example :: "tensor3 list \<Rightarrow> NestedTensor" where
  "pad_example l = \<lparr>tensors = l, mask = Some (map (map (map (\<lambda>_. False))) l)\<rparr>"

definition samples_example :: samples where
  "samples_example = SamplesNested \<lparr>tensors = [[[[0]]]], mask = Some [[[False]]]\<rparr>"

definition samples_nomask_example :: samples where
  "samples_nomask_example = SamplesNested \<lparr>tensors = [[[[0]]]], mask = None\<rparr>"

definition attention_module_8 :: MHAttentionMap where
  "attention_module_8 = projr (MHAttentionMap_init 8 8 8 0 True ones ones)"

definition detrpose_example :: "mat DETRpose" where
  "detrpose_example =
     projr (DETRpose_init detr_example True model_3d_net_example ones ones
              head_weights_example)"

text \<open>The result of the forward pass on the example.\<close>

definition out_example :: "mat out" where
  "out_example =
     \<lparr>pred_logits = [[[0, 0]]], pred_boxes = [[[1/2, 1/2, 1/2, 1/2]]],
      aux_outputs = Some [\<lparr>pred_logits = [[[0, 0]]], pred_boxes = [[[1/2, 1/2, 1/2, 1/2]]]\<rparr>],
      pose_class = [[[1/2, 1/2]]], pose_6dof = [[[replicate 6 32, replicate 6 32]]],
      pred_model_points = [replicate 8 1, replicate 8 2],
      pred_model_scales = [replicate 8 1, replicate 8 2],
      pred_model_centers = [replicate 8 1, replicate 8 2]\<rparr>"

text \<open>
  A batch of two: the second element has another query and other model features, for
  which the attention is \<open>1/32\<close> on the first model and \<open>3/32\<close> on the second.
\<close>

definition queries_example :: tensor3 where
  "queries_example = [[replicate 8 0], [[1, 0, 0, 0, 0, 0, 0, 0]]]"

definition features_example :: tensor3 where
  "features_example =
     [[replicate 8 1, replicate 8 2], [replicate 8 0, [ln 3, 0, 0, 0, 0, 0, 0, 0]]]"

definition attention_batch_example :: tensor4 where
  "attention_batch_example = [[replicate 8 [1/16, 1/16]], [replicate 8 [1/32, 3/32]]]"

section \<open>Properties of the attention map\<close>

lemma concat_view_heads: "length xs = n * c \<Longrightarrow> concat (view_heads n c xs) = xs"
  by (induction n arbitrary: xs) auto

lemma length_view_heads: "length (view_heads n c xs) = n"
  by (induction n arbitrary: xs) auto

lemma sum_list_exp_nonneg: "0 \<le> sum_list (map exp (xs::real list))"
  by (induction xs) auto

lemma sum_list_exp_pos: "xs \<noteq> [] \<Longrightarrow> 0 < sum_list (map exp (xs::real list))"
  using sum_list_exp_nonneg by (cases xs) (auto intro: add_pos_nonneg)

lemma sum_list_div: "sum_list (map (\<lambda>x. f x / c) xs) = sum_list (map f xs) / (c::real)"
  by (induction xs) (auto simp: add_divide_distrib)

lemma sum_list_softmax: "xs \<noteq> [] \<Longrightarrow> sum_list (softmax xs) = 1"
  using sum_list_exp_pos[of xs] by (simp add: softmax_def sum_list_div)

lemma softmax_nonneg: "v \<in> set (softmax xs) \<Longrightarrow> 0 \<le> v"
  unfolding softmax_def using sum_list_exp_nonneg by (auto intro!: divide_nonneg_nonneg)

lemma length_softmax: "length (softmax xs) = length xs"
  by (simp add: softmax_def)

lemma length_concat_const: "\<forall>row\<in>set w. length row = c \<Longrightarrow> length (concat w) = length w * c"
  by (induction w) auto

lemma sum_list_concat_rows:
  "sum_list (concat xss) = sum_list (map sum_list (xss::real list list))"
  by (induction xss) auto

lemma dim1_const: "w \<noteq> [] \<Longrightarrow> \<forall>row\<in>set w. length row = c \<Longrightarrow> dim1 w = c"
  by (cases w) (auto simp: dim1_def)

lemma flatten_softmax_view_concat:
  assumes "\<forall>row\<in>set w. length row = c"
  shows "concat (flatten_softmax_view w) = softmax (concat w)"
proof (cases "w = []")
  case True
  then show ?thesis by (simp add: flatten_softmax_view_def softmax_def)
next
  case False
  then have "dim1 w = c" using assms by (rule dim1_const)
  then show ?thesis
    unfolding flatten_softmax_view_def
    by (simp add: concat_view_heads length_softmax length_concat_const[OF assms])
qed

lemma scores_blocks:
  assumes "MHAttentionMap_scores am q k = Inr s" and "sb \<in> set s" and "blk \<in> set sb"
  shows "length blk = MHAttentionMap.num_heads am \<and> (\<exists>c. \<forall>row\<in>set blk. length row = c)"
  using assms
  by (auto simp: MHAttentionMap_scores_def Let_def einsum_bqnm_def
      split: if_splits option.splits)

lemma upt2: "[0..<2] = [0, 1]"
  by (simp add: upt_rec)

lemma attention_module_example_init:
  "MHAttentionMap_init 1 2 2 0 True ones ones = Inr attention_module_example"
  by (simp add: attention_module_example_def MHAttentionMap_init_def)

lemma attention_example_value:
  "attention_example = Inr [[[[1/4, 1/4], [1/4, 1/4]]]]"
  unfolding attention_example_def attention_module_example_def MHAttentionMap_init_def
    MHAttentionMap_forward_def MHAttentionMap_scores_def
  by (simp add: nn_Linear_def Parameter_def Linear_wf_def Linear_forward_def dot_def
      is_tensor3_def is_mat_def dim1_def last_dim_is_def numrows_def broadcast_b_def
      einsum_bqnm_def flatten_softmax_view_def softmax_def Dropout_forward_def ones_def
      upt2 numeral_2_eq_2 Let_def)

text \<open>
  C1, as stated: for every (batch, query, head) the \<open>M\<close> attention values sum to 1.
  With two heads and equal scores every value is \<open>1/4\<close>, and each head's two values
  sum to \<open>1/2\<close>: the softmax of line 45 runs over the flattened head and model axes.
\<close>

theorem MHAttentionMap_head_sums_counterexample:
  "map_sum id head_sums attention_example = Inr [[[1/2, 1/2]]]
   \<and> map_sum id head_sums attention_example \<noteq> Inr [[[1, 1]]]"
  by (simp add: attention_example_value head_sums_def)

text \<open>
  C1, amended: when the forward pass returns and dropout is the identity (probability 0,
  or evaluation mode), then for every batch element \<open>b\<close> and query \<open>i\<close> the block of
  \<open>num_heads\<close> rows is the softmax of the scores flattened over the head and model
  axes together: its values are non-negative and, unless the block is empty, sum to 1
  over heads and models jointly.
\<close>

theorem MHAttentionMap_forward_joint_softmax:
  assumes "MHAttentionMap_forward am training keep q k = Inr w"
    and "dropout am = 0 \<or> \<not> training"
    and "b < length w" and "i < length (w ! b)"
    and "concat (w ! b ! i) \<noteq> []"
  shows "\<exists>s. MHAttentionMap_scores am q k = Inr s
           \<and> concat (w ! b ! i) = softmax (concat (s ! b ! i))
           \<and> length (w ! b ! i) = MHAttentionMap.num_heads am
           \<and> sum_list (map sum_list (w ! b ! i)) = 1
           \<and> (\<forall>row \<in> set (w ! b ! i). \<forall>v \<in> set row. 0 \<le> v)"
proof -
  from assms(1) obtain s where s: "MHAttentionMap_scores am q k = Inr s"
    and w: "w = Dropout_forward (dropout am) training keep (map (map flatten_softmax_view) s)"
    by (auto simp: MHAttentionMap_forward_def split: sum.splits)
  from w assms(2) have w': "w = map (map flatten_softmax_view) s"
    by (auto simp: Dropout_forward_def)
  from w' assms(3,4) have b: "b < length s" and i: "i < length (s ! b)" by auto
  let ?blk = "s ! b ! i"
  have wbi: "w ! b ! i = flatten_softmax_view ?blk" using w' b i by simp
  have "s ! b \<in> set s" "?blk \<in> set (s ! b)" using b i by auto
  from scores_blocks[OF s this] obtain c where
    n: "length ?blk = MHAttentionMap.num_heads am" and c: "\<forall>row\<in>set ?blk. length row = c" by blast
  have cc: "concat (w ! b ! i) = softmax (concat ?blk)"
    using flatten_softmax_view_concat[OF c] wbi by simp
  have len: "length (w ! b ! i) = MHAttentionMap.num_heads am"
    using wbi n by (simp add: flatten_softmax_view_def length_view_heads)
  from cc assms(5) have ne: "concat ?blk \<noteq> []" by (auto simp: softmax_def)
  have sum: "sum_list (map sum_list (w ! b ! i)) = 1"
    using sum_list_softmax[OF ne] cc sum_list_concat_rows[of "w ! b ! i"] by simp
  have nonneg: "\<forall>row \<in> set (w ! b ! i). \<forall>v \<in> set row. 0 \<le> v"
  proof (intro ballI)
    fix row v assume "row \<in> set (w ! b ! i)" "v \<in> set row"
    then have "v \<in> set (concat (w ! b ! i))" by auto
    then show "0 \<le> v" using cc softmax_nonneg by simp
  qed
  from s cc len sum nonneg show ?thesis by blast
qed

theorem MHAttentionMap_forward_joint_softmax_witness:
  "MHAttentionMap_forward attention_module_example True keep_all [[[1]]] [[[0], [0]]]
     = Inr [[[[1/4, 1/4], [1/4, 1/4]]]]
   \<and> dropout attention_module_example = 0
   \<and> length ([[[[1/4, 1/4], [1/4, 1/4]]]] ! 0 ! 0 :: mat) = MHAttentionMap.num_heads attention_module_example
   \<and> sum_list (map sum_list ([[[[1/4, 1/4], [1/4, 1/4]]]] ! 0 ! 0 :: mat)) = 1"
proof -
  have fw: "MHAttentionMap_forward attention_module_example True keep_all [[[1]]] [[[0], [0]]]
      = Inr [[[[1/4, 1/4], [1/4, 1/4]]]]"
    using attention_example_value by (simp add: attention_example_def)
  have p: "dropout attention_module_example = 0"
    by (simp add: attention_module_example_def MHAttentionMap_init_def)
  have "\<exists>s. MHAttentionMap_scores attention_module_example [[[1]]] [[[0], [0]]] = Inr s
           \<and> concat ([[[[1/4, 1/4], [1/4, 1/4]]]] ! 0 ! 0)
               = softmax (concat (s ! 0 ! 0))
           \<and> length ([[[[1/4, 1/4], [1/4, 1/4]]]] ! 0 ! 0 :: mat)
               = MHAttentionMap.num_heads attention_module_example
           \<and> sum_list (map sum_list ([[[[1/4, 1/4], [1/4, 1/4]]]] ! 0 ! 0 :: mat)) = 1
           \<and> (\<forall>row \<in> set ([[[[1/4, 1/4], [1/4, 1/4]]]] ! 0 ! 0 :: mat).
                \<forall>v \<in> set row. 0 \<le> v)"
    by (rule MHAttentionMap_forward_joint_softmax[OF fw]) (simp_all add: p)
  then have "length ([[[[1/4, 1/4], [1/4, 1/4]]]] ! 0 ! 0 :: mat)
               = MHAttentionMap.num_heads attention_module_example
           \<and> sum_list (map sum_list ([[[[1/4, 1/4], [1/4, 1/4]]]] ! 0 ! 0 :: mat)) = 1"
    by blast
  with fw p show ?thesis by blast
qed

section \<open>Properties of the prediction head\<close>

lemma length_imap: "length (imap f xs) = length xs"
  by (simp add: imap_def)

lemma nth_imap: "i < length xs \<Longrightarrow> imap f xs ! i = f i (xs ! i)"
  by (simp add: imap_def)

lemma length_GroupNorm_forward: "length (GroupNorm_forward gn xb) = length xb"
  by (simp add: GroupNorm_forward_def Let_def)

lemma length_refine_features: "length (refine_features ph xb) = length xb"
  by (simp add: refine_features_def length_GroupNorm_forward)

lemma length_cat_features: "length (cat_features xb attb) = length attb"
  by (simp add: cat_features_def)

lemma length_cat_features_nth:
  "q < length attb \<Longrightarrow> length (cat_features xb attb ! q) = length xb"
  by (simp add: cat_features_def length_imap)

lemma PoseHead_forward_Inr:
  assumes "PoseHeadSmallLinear_forward ph x attention = Inr (x_c, x_p)"
  shows "x_c = map (map (class_branch ph)) (PoseHead_fused ph x attention)"
    and "x_p = map (map (map (pose_branch ph))) (PoseHead_fused ph x attention)"
    and "length x = length attention"
    and "list_all (list_all (list_all (class_ok ph))) (PoseHead_fused ph x attention)"
    and "list_all (list_all (list_all (pose_ok ph))) (PoseHead_fused ph x attention)"
  using assms
  by (auto simp: PoseHeadSmallLinear_forward_def Let_def cat_ok_def split: if_splits)

lemma fused_nth:
  assumes "length x = length attention" and "b < length x"
  shows "PoseHead_fused ph x attention ! b
           = cat_features (refine_features ph (x ! b)) (attention ! b)"
  using assms by (simp add: PoseHead_fused_def)

lemma length_fused: "length x = length attention \<Longrightarrow> length (PoseHead_fused ph x attention) = length x"
  by (simp add: PoseHead_fused_def)

lemma upt4: "[0..<4] = [0, 1, 2, 3]"
  by (simp add: upt_rec)
lemma upt8: "[0..<8] = [0, 1, 2, 3, 4, 5, 6, 7]"
  by (simp add: upt_rec)
lemma upt16: "[0..<16] = [0, 1, 2, 3, 4, 5, 6, 7, 8, 9, 10, 11, 12, 13, 14, 15]"
  by (simp add: upt_rec)
lemma upt6: "[0..<6] = [0, 1, 2, 3, 4, 5]"
  by (simp add: upt_rec)
lemma upt1: "[0..<1] = [0]"
  by (simp add: upt_rec)
lemma rep8: "replicate 8 x = [x,x,x,x,x,x,x,x]"
  by (simp add: eval_nat_numeral)

lemma pose_head_example_init: "PoseHeadSmallLinear_init 8 8 head_weights_example = Inr pose_head_example"
  by (simp add: pose_head_example_def PoseHeadSmallLinear_init_def nn_GroupNorm_def)

lemma pose_head_example_fields:
  "l1 pose_head_example = nn_Linear 8 8 (head_weights_example 0) (\<lambda>_. 0)"
  "l2 pose_head_example = halving_stack 16 1 head_weights_example"
  "l3 pose_head_example = nn_Linear 1 1 (head_weights_example 5) (\<lambda>_. 0)"
  "l4 pose_head_example = halving_stack 16 6 head_weights_example"
  "l5 pose_head_example = nn_Linear 1 6 (head_weights_example 10) (\<lambda>_. 0)"
  "g1 pose_head_example = \<lparr>num_groups = 8, num_channels = 8, eps = 1 / 100000,
                gn_weight = Parameter (replicate 8 1),
                gn_bias = Parameter (replicate 8 0)\<rparr>"
  by (simp_all add: pose_head_example_def PoseHeadSmallLinear_init_def nn_GroupNorm_def)

lemma pose_head_example_refine:
  "refine_features pose_head_example [replicate 8 1, replicate 8 2] = [replicate 8 0, replicate 8 0]"
  unfolding refine_features_def pose_head_example_fields GroupNorm_forward_def
  by (simp add: nn_Linear_def Parameter_def Linear_forward_def dot_def head_weights_example_def
      upt8 rep8 imap_def group_values_def mean_def variance_def relu_def Let_def)

lemma pose_head_example_refine_lists:
  "refine_features pose_head_example [[1,1,1,1,1,1,1,1], [2,2,2,2,2,2,2,2]]
     = [[0,0,0,0,0,0,0,0], [0,0,0,0,0,0,0,0]]"
  using pose_head_example_refine by (simp add: rep8)

lemma pose_head_example_fused:
  "PoseHead_fused pose_head_example model_features_example head_attention_example
     = [[[replicate 8 0 @ replicate 8 (1/32), replicate 8 0 @ replicate 8 (3/32)]]]"
  unfolding PoseHead_fused_def model_features_example_def head_attention_example_def
  by (simp add: pose_head_example_refine_lists cat_features_def imap_def rep8 upt_rec[of 0 2] upt_rec[of 1 2])

lemma halving_stack_16:
  "halving_stack 16 k w =
     [Lin (nn_Linear 16 8 (w k) (\<lambda>_. 0)), ReLU, Lin (nn_Linear 8 4 (w (k + 1)) (\<lambda>_. 0)), ReLU,
      Lin (nn_Linear 4 2 (w (k + 2)) (\<lambda>_. 0)), ReLU, Lin (nn_Linear 2 1 (w (k + 3)) (\<lambda>_. 0)), ReLU]"
  by (simp add: halving_stack_def upt4)

lemma nn_Linear_wf: "Linear_wf (nn_Linear i out w b)"
  by (simp add: Linear_wf_def nn_Linear_def Parameter_def list_all_iff)

lemma nn_Linear_dims: "in_features (nn_Linear i out w b) = i" "out_features (nn_Linear i out w b) = out"
  by (simp_all add: nn_Linear_def)

lemma halving_stack_16_out:
  "Sequential_out (halving_stack 16 k w) 16 = Some 1"
  by (simp add: halving_stack_16 nn_Linear_wf nn_Linear_dims)

lemma pose_head_example_stack:
  "k = 1 \<or> k = 6 \<Longrightarrow>
   Sequential_forward (halving_stack 16 k head_weights_example) (replicate 8 0 @ replicate 8 a)
     = [relu (2 * relu (4 * relu (8 * relu (8 * a))))]"
  unfolding halving_stack_16 Sequential_forward_def
  by (auto simp add: nn_Linear_def Parameter_def Linear_forward_def dot_def
      head_weights_example_def upt8 upt16 upt4 upt2 upt1 rep8)

lemma pose_head_example_scalars:
  "map (\<lambda>v. Linear_forward (l3 pose_head_example) (Sequential_forward (l2 pose_head_example) v))
     [replicate 8 0 @ replicate 8 (1/32), replicate 8 0 @ replicate 8 (3/32)]
   = [[- 16], [- 48]]"
  by (simp add: pose_head_example_fields pose_head_example_stack)
     (simp add: nn_Linear_def Parameter_def Linear_forward_def dot_def
      head_weights_example_def upt1 relu_def)

lemma pose_head_example_poses:
  "map (pose_branch pose_head_example)
     [replicate 8 0 @ replicate 8 (1/32), replicate 8 0 @ replicate 8 (3/32)]
   = [replicate 6 16, replicate 6 48]"
  by (simp add: pose_branch_def pose_head_example_fields pose_head_example_stack)
     (simp add: nn_Linear_def Parameter_def Linear_forward_def dot_def
      head_weights_example_def upt1 upt6 relu_def eval_nat_numeral)

lemma pose_head_example_class:
  "class_branch pose_head_example
     [replicate 8 0 @ replicate 8 (1/32), replicate 8 0 @ replicate 8 (3/32)] = [1/2, 1/2]"
  using pose_head_example_scalars by (simp add: class_branch_def relu_def softmax_def)

lemma pose_head_example_class_spec:
  "class_branch_spec pose_head_example
     [replicate 8 0 @ replicate 8 (1/32), replicate 8 0 @ replicate 8 (3/32)]
   = softmax [- 16, - 48]"
  using pose_head_example_scalars by (simp add: class_branch_spec_def)

lemma softmax_16_48: "softmax [- 16, - 48] \<noteq> [1/2, 1/2]"
proof
  assume "softmax [- 16, - 48] = [1/2, 1/2]"
  then have "exp (- 16) / (exp (- 16) + exp (- 48)) = (1/2 :: real)"
    by (simp add: softmax_def)
  then have "exp (- 16 :: real) = exp (- 48)"
    by (simp add: field_simps)
  then show False by simp
qed

lemma pose_head_example_ok:
  "list_all (class_ok pose_head_example)
     [replicate 8 0 @ replicate 8 (1/32), replicate 8 0 @ replicate 8 (3/32)]"
  "list_all (pose_ok pose_head_example)
     [replicate 8 0 @ replicate 8 (1/32), replicate 8 0 @ replicate 8 (3/32)]"
  by (simp_all add: class_ok_def pose_ok_def pose_head_example_fields halving_stack_16_out nn_Linear_wf nn_Linear_dims)

lemma pose_head_example_forward:
  "PoseHeadSmallLinear_forward pose_head_example model_features_example head_attention_example
     = Inr ([[[1/2, 1/2]]], [[[replicate 6 16, replicate 6 48]]])"
proof -
  have a: "is_tensor3 model_features_example" "Linear_wf (l1 pose_head_example)"
    "last_dim_is (in_features (l1 pose_head_example)) model_features_example"
    by (simp_all add: model_features_example_def pose_head_example_fields nn_Linear_wf nn_Linear_dims
        is_tensor3_def is_mat_def dim1_def last_dim_is_def)
  have b: "num_groups (g1 pose_head_example) = 8" "out_features (l1 pose_head_example) = 8"
    "length model_features_example = 1" "dim1 model_features_example = 2"
    by (simp_all add: model_features_example_def pose_head_example_fields nn_Linear_dims dim1_def)
  have c: "group_norm_ok (g1 pose_head_example) 8"
    by (simp add: group_norm_ok_def pose_head_example_fields Parameter_def)
  have d: "cat_ok model_features_example head_attention_example"
    by (simp add: cat_ok_def model_features_example_def head_attention_example_def
        is_tensor4_def is_tensor3_def is_mat_def dim1_def rep8)
  show ?thesis
    unfolding PoseHeadSmallLinear_forward_def pose_head_example_fused Let_def
    using pose_head_example_ok pose_head_example_class pose_head_example_poses by (simp add: a b c d)
qed

text \<open>
  C2: when the forward pass of the head returns, its first result has the shape
  \<open>(B, Q, M)\<close> of the batch, the queries of the attention and the models, and for every
  (batch, query) with at least one model its values are non-negative and sum to 1 over
  the model axis.
\<close>

theorem PoseHead_class_output_distribution:
  assumes "PoseHeadSmallLinear_forward ph x attention = Inr (x_c, x_p)"
    and "b < length x" and "q < length (attention ! b)" and "x ! b \<noteq> []"
  shows "length x_c = length x \<and> length (x_c ! b) = length (attention ! b)
         \<and> length (x_c ! b ! q) = length (x ! b)
         \<and> sum_list (x_c ! b ! q) = 1
         \<and> (\<forall>p \<in> set (x_c ! b ! q). 0 \<le> p)"
proof -
  note f = PoseHead_forward_Inr[OF assms(1)]
  let ?fused = "PoseHead_fused ph x attention"
  have fb: "?fused ! b = cat_features (refine_features ph (x ! b)) (attention ! b)"
    using fused_nth[OF f(3) assms(2)] .
  have lb: "b < length ?fused" using length_fused[OF f(3)] assms(2) by simp
  have lq: "q < length (?fused ! b)" using fb assms(3) by (simp add: length_cat_features)
  have xc: "x_c ! b ! q = class_branch ph (?fused ! b ! q)"
    using f(1) lb lq by simp
  have lrow: "length (?fused ! b ! q) = length (x ! b)"
    using fb assms(3) by (simp add: length_cat_features_nth length_refine_features)
  have 1: "length x_c = length x" using f(1) length_fused[OF f(3)] by simp
  have 2: "length (x_c ! b) = length (attention ! b)"
    using f(1) lb fb by (simp add: length_cat_features)
  have 3: "length (x_c ! b ! q) = length (x ! b)"
    using xc lrow by (simp add: class_branch_def length_softmax)
  have ne: "map (\<lambda>v. relu (hd (Linear_forward (l3 ph) (Sequential_forward (l2 ph) v))))
              (?fused ! b ! q) \<noteq> []"
    using lrow assms(4) by auto
  have 4: "sum_list (x_c ! b ! q) = 1"
    unfolding xc class_branch_def by (rule sum_list_softmax[OF ne])
  have 5: "\<forall>p \<in> set (x_c ! b ! q). 0 \<le> p"
    unfolding xc class_branch_def using softmax_nonneg by blast
  from 1 2 3 4 5 show ?thesis by blast
qed

theorem PoseHead_class_output_distribution_witness:
  "PoseHeadSmallLinear_forward pose_head_example model_features_example head_attention_example
     = Inr ([[[1/2, 1/2]]], [[[replicate 6 16, replicate 6 48]]])
   \<and> length model_features_example = 1
   \<and> length (head_attention_example ! 0) = 1
   \<and> length (model_features_example ! 0) = 2
   \<and> length ([[[1/2, 1/2]]] ! 0 ! 0 :: vec) = length (model_features_example ! 0)
   \<and> sum_list ([[[1/2, 1/2]]] ! 0 ! 0 :: vec) = 1"
proof -
  have s: "length model_features_example = 1" "length (head_attention_example ! 0) = 1"
    "length (model_features_example ! 0) = 2"
    by (simp_all add: model_features_example_def head_attention_example_def)
  have "length ([[[1/2, 1/2]]] :: tensor3) = length model_features_example
      \<and> length ([[[1/2, 1/2]]] ! 0 :: mat) = length (head_attention_example ! 0)
      \<and> length ([[[1/2, 1/2]]] ! 0 ! 0 :: vec) = length (model_features_example ! 0)
      \<and> sum_list ([[[1/2, 1/2]]] ! 0 ! 0 :: vec) = 1
      \<and> (\<forall>p \<in> set ([[[1/2, 1/2]]] ! 0 ! 0 :: vec). 0 \<le> p)"
    by (rule PoseHead_class_output_distribution[OF pose_head_example_forward])
       (simp_all add: model_features_example_def head_attention_example_def)
  with s pose_head_example_forward show ?thesis by blast
qed

text \<open>
  C3, as stated: nothing lies between the projection to a scalar and the softmax. On the
  example the scalars of the two models are \<open>-16\<close> and \<open>-48\<close>; line 100 applies a ReLU
  to them, so the head returns \<open>1/2\<close> for both models, which is not the softmax of the
  scalars themselves.
\<close>

theorem PoseHead_class_branch_counterexample:
  "map_sum id fst (PoseHeadSmallLinear_forward pose_head_example model_features_example
      head_attention_example) = Inr [[[1/2, 1/2]]]
   \<and> map (map (class_branch_spec pose_head_example))
        (PoseHead_fused pose_head_example model_features_example head_attention_example)
       \<noteq> [[[1/2, 1/2]]]"
  using softmax_16_48 by (simp add: pose_head_example_forward pose_head_example_fused pose_head_example_class_spec)

lemma halving_stack_has_arch: "halving_stack_arch nf (halving_stack nf k w)"
  by (simp add: halving_stack_arch_def halving_stack_def upt4 nn_Linear_wf Linear_shape_def
      nn_Linear_dims)

lemma PoseHeadSmallLinear_init_arch:
  assumes "PoseHeadSmallLinear_init dims heads w = Inr ph"
  shows "PoseHead_arch dims heads ph"
  using assms
  by (auto simp: PoseHeadSmallLinear_init_def nn_GroupNorm_def PoseHead_arch_def Let_def
      halving_stack_has_arch nn_Linear_wf Linear_shape_def nn_Linear_dims group_norm_ok_def
      Parameter_def split: if_splits)

lemma Module_shape_Some: "Module_shape m = Some s \<Longrightarrow> \<exists>l. m = Lin l \<and> Linear_shape l = s"
  by (cases m) auto

lemma Module_shape_None: "Module_shape m = None \<Longrightarrow> m = ReLU"
  by (cases m) auto

lemma halving_stack_arch_form:
  assumes "halving_stack_arch nf ms"
  shows "\<exists>a0 a1 a2 a3. ms = [Lin a0, ReLU, Lin a1, ReLU, Lin a2, ReLU, Lin a3, ReLU]
           \<and> Linear_shape a0 = (nf, nf div 2) \<and> Linear_shape a1 = (nf div 2, nf div 4)
           \<and> Linear_shape a2 = (nf div 4, nf div 8) \<and> Linear_shape a3 = (nf div 8, nf div 16)
           \<and> Linear_wf a0 \<and> Linear_wf a1 \<and> Linear_wf a2 \<and> Linear_wf a3"
proof -
  from assms have m: "map Module_shape ms =
      [Some (nf, nf div 2), None, Some (nf div 2, nf div 4), None,
       Some (nf div 4, nf div 8), None, Some (nf div 8, nf div 16), None]"
    and wf: "list_all Module_wf ms"
    by (simp_all add: halving_stack_arch_def upt4)
  from m obtain m0 m1 m2 m3 m4 m5 m6 m7 where ms: "ms = [m0, m1, m2, m3, m4, m5, m6, m7]"
    and s: "Module_shape m0 = Some (nf, nf div 2)" "Module_shape m1 = None"
      "Module_shape m2 = Some (nf div 2, nf div 4)" "Module_shape m3 = None"
      "Module_shape m4 = Some (nf div 4, nf div 8)" "Module_shape m5 = None"
      "Module_shape m6 = Some (nf div 8, nf div 16)" "Module_shape m7 = None"
    by (auto simp: map_eq_Cons_conv)
  from s obtain a0 a1 a2 a3 where
    "m0 = Lin a0" "Linear_shape a0 = (nf, nf div 2)" "m1 = ReLU"
    "m2 = Lin a1" "Linear_shape a1 = (nf div 2, nf div 4)" "m3 = ReLU"
    "m4 = Lin a2" "Linear_shape a2 = (nf div 4, nf div 8)" "m5 = ReLU"
    "m6 = Lin a3" "Linear_shape a3 = (nf div 8, nf div 16)" "m7 = ReLU"
    by (meson Module_shape_Some Module_shape_None)
  with ms wf show ?thesis by auto
qed

text \<open>
  C3, amended: in the classification branch the fused tensor passes through the four
  halving linear layers, each followed by a ReLU, then the projection to a scalar, then
  a ReLU, and then the softmax over the model axis.
\<close>

theorem PoseHead_class_branch_with_relu:
  assumes "PoseHead_arch dims heads ph"
    and "PoseHeadSmallLinear_forward ph x attention = Inr (x_c, x_p)"
    and "b < length x" and "q < length (attention ! b)"
  shows "\<exists>a0 a1 a2 a3.
           l2 ph = [Lin a0, ReLU, Lin a1, ReLU, Lin a2, ReLU, Lin a3, ReLU]
           \<and> Linear_shape a0 = (dims + heads, (dims + heads) div 2)
           \<and> Linear_shape a1 = ((dims + heads) div 2, (dims + heads) div 4)
           \<and> Linear_shape a2 = ((dims + heads) div 4, (dims + heads) div 8)
           \<and> Linear_shape a3 = ((dims + heads) div 8, (dims + heads) div 16)
           \<and> Linear_shape (l3 ph) = ((dims + heads) div 16, 1)
           \<and> x_c ! b ! q =
               softmax (map (\<lambda>v. relu (hd (Linear_forward (l3 ph)
                    (map relu (Linear_forward a3 (map relu (Linear_forward a2
                    (map relu (Linear_forward a1 (map relu (Linear_forward a0 v)))))))))))
                 (PoseHead_fused ph x attention ! b ! q))"
proof -
  from assms(1) have st: "halving_stack_arch (dims + heads) (l2 ph)"
    and s3: "Linear_shape (l3 ph) = ((dims + heads) div 16, 1)"
    by (simp_all add: PoseHead_arch_def)
  from halving_stack_arch_form[OF st] obtain a0 a1 a2 a3 where
    l2: "l2 ph = [Lin a0, ReLU, Lin a1, ReLU, Lin a2, ReLU, Lin a3, ReLU]"
    and sh: "Linear_shape a0 = (dims + heads, (dims + heads) div 2)"
      "Linear_shape a1 = ((dims + heads) div 2, (dims + heads) div 4)"
      "Linear_shape a2 = ((dims + heads) div 4, (dims + heads) div 8)"
      "Linear_shape a3 = ((dims + heads) div 8, (dims + heads) div 16)"
    by blast
  note f = PoseHead_forward_Inr[OF assms(2)]
  let ?fused = "PoseHead_fused ph x attention"
  have fb: "?fused ! b = cat_features (refine_features ph (x ! b)) (attention ! b)"
    using fused_nth[OF f(3) assms(3)] .
  have lb: "b < length ?fused" using length_fused[OF f(3)] assms(3) by simp
  have lq: "q < length (?fused ! b)" using fb assms(4) by (simp add: length_cat_features)
  have xc: "x_c ! b ! q = class_branch ph (?fused ! b ! q)"
    using f(1) lb lq by simp
  have "x_c ! b ! q =
      softmax (map (\<lambda>v. relu (hd (Linear_forward (l3 ph)
           (map relu (Linear_forward a3 (map relu (Linear_forward a2
           (map relu (Linear_forward a1 (map relu (Linear_forward a0 v)))))))))))
        (?fused ! b ! q))"
    unfolding xc class_branch_def by (simp add: l2 Sequential_forward_def)
  with l2 sh s3 show ?thesis by blast
qed

theorem PoseHead_class_branch_with_relu_witness:
  "PoseHead_arch 8 8 pose_head_example
   \<and> PoseHeadSmallLinear_forward pose_head_example model_features_example
        head_attention_example
       = Inr ([[[1/2, 1/2]]], [[[replicate 6 16, replicate 6 48]]])
   \<and> length model_features_example = 1
   \<and> length (head_attention_example ! 0) = 1
   \<and> Linear_shape (l3 pose_head_example) = (1, 1)"
proof -
  have a: "PoseHead_arch 8 8 pose_head_example"
    by (rule PoseHeadSmallLinear_init_arch[OF pose_head_example_init])
  have r: "length model_features_example = 1" "length (head_attention_example ! 0) = 1"
    by (simp_all add: model_features_example_def head_attention_example_def)
  then have r': "0 < length model_features_example" "0 < length (head_attention_example ! 0)"
    by simp_all
  from PoseHead_class_branch_with_relu[OF a pose_head_example_forward r']
  have "Linear_shape (l3 pose_head_example) = (1, 1)" by auto
  with a r pose_head_example_forward show ?thesis by blast
qed

lemma fused_with_pose_bias:
  "PoseHead_fused (with_pose_bias ph b) x attention = PoseHead_fused ph x attention"
  by (simp add: PoseHead_fused_def refine_features_def with_pose_bias_def)

lemma class_branch_with_pose_bias:
  "class_branch (with_pose_bias ph b) = class_branch ph"
  by (rule ext) (simp add: class_branch_def with_pose_bias_def)

lemma class_ok_with_pose_bias: "class_ok (with_pose_bias ph b) = class_ok ph"
  by (rule ext) (simp add: class_ok_def with_pose_bias_def)

lemma pose_ok_with_pose_bias:
  "length b = out_features (l5 ph) \<Longrightarrow> pose_ok ph v \<Longrightarrow> pose_ok (with_pose_bias ph b) v"
  by (auto simp add: pose_ok_def with_pose_bias_def Linear_wf_def)

lemma PoseHead_forward_eq_Inr:
  "PoseHeadSmallLinear_forward ph x attention = Inr r \<longleftrightarrow>
     (is_tensor3 x \<and> Linear_wf (l1 ph) \<and> last_dim_is (in_features (l1 ph)) x
      \<and> num_groups (g1 ph) \<noteq> 0
      \<and> length x * out_features (l1 ph) div num_groups (g1 ph) * dim1 x \<noteq> 1
      \<and> group_norm_ok (g1 ph) (out_features (l1 ph))
      \<and> cat_ok x attention
      \<and> list_all (list_all (list_all (class_ok ph))) (PoseHead_fused ph x attention)
      \<and> list_all (list_all (list_all (pose_ok ph))) (PoseHead_fused ph x attention)
      \<and> r = (map (map (class_branch ph)) (PoseHead_fused ph x attention),
              map (map (map (pose_branch ph))) (PoseHead_fused ph x attention)))"
  by (auto simp: PoseHeadSmallLinear_forward_def Let_def)

lemma PoseHead_forward_with_pose_bias:
  assumes "PoseHeadSmallLinear_forward ph x attention = Inr (x_c, x_p)"
    and "length b = out_features (l5 ph)"
  shows "PoseHeadSmallLinear_forward (with_pose_bias ph b) x attention
     = Inr (x_c, map (map (map (pose_branch (with_pose_bias ph b))))
                   (PoseHead_fused ph x attention))"
proof -
  have same: "l1 (with_pose_bias ph b) = l1 ph" "g1 (with_pose_bias ph b) = g1 ph"
    by (simp_all add: with_pose_bias_def)
  from assms(1) have g: "list_all (list_all (list_all (pose_ok ph))) (PoseHead_fused ph x attention)"
    by (simp add: PoseHead_forward_eq_Inr)
  have "list_all (list_all (list_all (pose_ok (with_pose_bias ph b))))
          (PoseHead_fused ph x attention)"
    using g pose_ok_with_pose_bias[OF assms(2)] by (auto simp: list_all_iff)
  with assms(1) show ?thesis
    by (simp add: PoseHead_forward_eq_Inr same fused_with_pose_bias class_branch_with_pose_bias
        class_ok_with_pose_bias)
qed

lemma Linear_forward_target:
  assumes "length W = length t"
  shows "map2 (\<lambda>row b. dot row feat + b) W (map2 (\<lambda>row tj. tj - dot row feat) W t) = t"
  using assms by (induction W t rule: list_induct2) auto

text \<open>
  C4: the second result of the head has shape \<open>(B, Q, M, 6)\<close>; each pose is the weight
  of \<open>l5\<close> applied to the features leaving \<open>l4\<close>, plus the bias of \<open>l5\<close>, with no
  activation after it; and every vector \<open>t\<close> of 6 reals is the pose of a head that
  differs only in the bias of \<open>l5\<close>, so no component is clipped.
\<close>

theorem PoseHead_pose_output_affine:
  assumes "PoseHead_arch dims heads ph"
    and "PoseHeadSmallLinear_forward ph x attention = Inr (x_c, x_p)"
    and "b < length x" and "q < length (attention ! b)" and "m < length (x ! b)"
    and "length t = 6"
  shows "length x_p = length x \<and> length (x_p ! b) = length (attention ! b)
         \<and> length (x_p ! b ! q) = length (x ! b) \<and> length (x_p ! b ! q ! m) = 6
         \<and> x_p ! b ! q ! m
             = map2 (\<lambda>row c. dot row (Sequential_forward (l4 ph)
                                  (PoseHead_fused ph x attention ! b ! q ! m)) + c)
                 (data (weight (l5 ph))) (data (bias (l5 ph)))
         \<and> (\<exists>x_p'. PoseHeadSmallLinear_forward
                (with_pose_bias ph (pose_bias_for ph (Sequential_forward (l4 ph)
                    (PoseHead_fused ph x attention ! b ! q ! m)) t)) x attention
                  = Inr (x_c, x_p')
               \<and> x_p' ! b ! q ! m = t)"
proof -
  note f = PoseHead_forward_Inr[OF assms(2)]
  let ?fused = "PoseHead_fused ph x attention"
  let ?feat = "Sequential_forward (l4 ph) (?fused ! b ! q ! m)"
  have fb: "?fused ! b = cat_features (refine_features ph (x ! b)) (attention ! b)"
    using fused_nth[OF f(3) assms(3)] .
  have lb: "b < length ?fused" using length_fused[OF f(3)] assms(3) by simp
  have lq: "q < length (?fused ! b)" using fb assms(4) by (simp add: length_cat_features)
  have lrow: "length (?fused ! b ! q) = length (x ! b)"
    using fb assms(4) by (simp add: length_cat_features_nth length_refine_features)
  then have lm: "m < length (?fused ! b ! q)" using assms(5) by simp
  have xp: "x_p ! b ! q ! m = pose_branch ph (?fused ! b ! q ! m)"
    using f(2) lb lq lm by simp
  have l5: "Linear_wf (l5 ph)" "out_features (l5 ph) = 6"
    using assms(1) by (simp_all add: PoseHead_arch_def Linear_shape_def)
  then have lw: "length (data (weight (l5 ph))) = 6" "length (data (bias (l5 ph))) = 6"
    by (simp_all add: Linear_wf_def)
  have 1: "length x_p = length x" using f(2) length_fused[OF f(3)] by simp
  have 2: "length (x_p ! b) = length (attention ! b)"
    using f(2) lb fb by (simp add: length_cat_features)
  have 3: "length (x_p ! b ! q) = length (x ! b)" using f(2) lb lq lrow by simp
  have 5: "x_p ! b ! q ! m
      = map2 (\<lambda>row c. dot row ?feat + c) (data (weight (l5 ph))) (data (bias (l5 ph)))"
    unfolding xp by (simp add: pose_branch_def Linear_forward_def)
  have 4: "length (x_p ! b ! q ! m) = 6" unfolding 5 using lw by simp
  let ?b' = "pose_bias_for ph ?feat t"
  have lb': "length ?b' = out_features (l5 ph)"
    using lw assms(6) l5 by (simp add: pose_bias_for_def)
  let ?xp' = "map (map (map (pose_branch (with_pose_bias ph ?b')))) ?fused"
  have fw: "PoseHeadSmallLinear_forward (with_pose_bias ph ?b') x attention = Inr (x_c, ?xp')"
    by (rule PoseHead_forward_with_pose_bias[OF assms(2) lb'])
  have "?xp' ! b ! q ! m = pose_branch (with_pose_bias ph ?b') (?fused ! b ! q ! m)"
    using lb lq lm by simp
  also have "\<dots> = map2 (\<lambda>row c. dot row ?feat + c) (data (weight (l5 ph))) ?b'"
    by (simp add: pose_branch_def Linear_forward_def with_pose_bias_def)
  also have "\<dots> = t"
    unfolding pose_bias_for_def using lw assms(6) by (intro Linear_forward_target) simp
  finally have 6: "?xp' ! b ! q ! m = t" .
  from 1 2 3 4 5 fw 6 show ?thesis by blast
qed

theorem PoseHead_pose_output_affine_witness:
  "PoseHead_arch 8 8 pose_head_example
   \<and> PoseHeadSmallLinear_forward pose_head_example model_features_example
        head_attention_example
       = Inr ([[[1/2, 1/2]]], [[[replicate 6 16, replicate 6 48]]])
   \<and> length [1, 2, 3, 4, 5, 6 :: real] = 6
   \<and> length ([[[replicate 6 16, replicate 6 48]]] ! 0 ! 0 ! 0 :: vec) = 6
   \<and> (\<exists>x_p'. PoseHeadSmallLinear_forward
          (with_pose_bias pose_head_example
             (pose_bias_for pose_head_example
                (Sequential_forward (l4 pose_head_example)
                   (PoseHead_fused pose_head_example model_features_example
                      head_attention_example ! 0 ! 0 ! 0))
                [1, 2, 3, 4, 5, 6]))
          model_features_example head_attention_example
         = Inr ([[[1/2, 1/2]]], x_p')
        \<and> x_p' ! 0 ! 0 ! 0 = [1, 2, 3, 4, 5, 6])"
proof -
  have a: "PoseHead_arch 8 8 pose_head_example"
    by (rule PoseHeadSmallLinear_init_arch[OF pose_head_example_init])
  have l: "length [1, 2, 3, 4, 5, 6 :: real] = 6" by simp
  have r: "(0::nat) < length model_features_example"
    "0 < length (head_attention_example ! 0)" "0 < length (model_features_example ! 0)"
    by (simp_all add: model_features_example_def head_attention_example_def)
  from PoseHead_pose_output_affine[OF a pose_head_example_forward r l] a l
    pose_head_example_forward
  show ?thesis by blast
qed

section \<open>Properties of the joint network\<close>

lemma DETRpose_init_eq:
  "DETRpose_init d fr net wq wk wh =
     (case MHAttentionMap_init (d_model d) (d_model d) (nhead d) 0 True wq wk of
        Inl e \<Rightarrow> Inl e
      | Inr am \<Rightarrow>
          (case PoseHeadSmallLinear_init (d_model d) (nhead d) wh of
             Inl e \<Rightarrow> Inl e
           | Inr ph \<Rightarrow>
               Inr \<lparr>detr = (if fr then DETR_set_grad False d else d), model_3d_net = net,
                    bbox_attention = am, pose_head = ph\<rparr>))"
  by (simp add: DETRpose_init_def registry_set_grad_def Let_def split: sum.splits)

lemma set_requires_grad_flag: "requires_grad (set_requires_grad b p) = b"
  by (simp add: set_requires_grad_def)

lemma set_requires_grad_data: "data (set_requires_grad b p) = data p"
  by (simp add: set_requires_grad_def)

lemma DETR_set_grad_flags: "list_all (\<lambda>f. f = b) (DETR_flags (DETR_set_grad b d))"
  by (simp add: DETR_flags_def DETR_set_grad_def list_all_iff set_requires_grad_flag)

lemma Parameter_flag: "requires_grad (Parameter v) = True"
  by (simp add: Parameter_def)

lemma nn_Linear_flags: "Linear_flags (nn_Linear i out w b) = [True, True]"
  by (simp add: Linear_flags_def nn_Linear_def Parameter_def)

lemma halving_stack_flags:
  "list_all (\<lambda>f. f = True) (concat (map Module_flags (halving_stack nf k w)))"
  by (simp add: halving_stack_def upt4 nn_Linear_flags)

lemma MHAttentionMap_init_flags:
  "MHAttentionMap_init qd h n p wb wq wk = Inr am \<Longrightarrow>
   list_all (\<lambda>f. f = True) (MHAttentionMap_flags am)"
  by (auto simp: MHAttentionMap_init_def MHAttentionMap_flags_def nn_Linear_flags
      split: if_splits)

lemma PoseHeadSmallLinear_init_flags:
  "PoseHeadSmallLinear_init dims heads w = Inr ph \<Longrightarrow>
   list_all (\<lambda>f. f = True) (PoseHead_flags ph)"
  using halving_stack_flags
  by (auto simp: PoseHeadSmallLinear_init_def PoseHead_flags_def nn_Linear_flags
      nn_GroupNorm_def GroupNorm_flags_def Parameter_def Let_def
      split: if_splits sum.splits)

text \<open>
  C10: with \<open>freeze_detr\<close> set, the loop of lines 116 and 117 runs while the detector is
  the only registered submodule. After construction every parameter of the detector
  has \<open>requires_grad = False\<close>, and every parameter of the 3D-model network (built
  trainable by its own constructor), of the attention map and of the head has
  \<open>requires_grad = True\<close>.
\<close>

theorem DETRpose_init_freezes_detr_only:
  assumes "DETRpose_init d True net wq wk wh = Inr m"
    and "list_all (\<lambda>f. f = True) (Model3DNet_flags net)"
  shows "list_all (\<lambda>f. f = False) (DETR_flags (detr m))
         \<and> list_all (\<lambda>f. f = True) (Model3DNet_flags (model_3d_net m))
         \<and> list_all (\<lambda>f. f = True) (MHAttentionMap_flags (bbox_attention m))
         \<and> list_all (\<lambda>f. f = True) (PoseHead_flags (pose_head m))"
proof -
  from assms(1) obtain am ph where
    am: "MHAttentionMap_init (d_model d) (d_model d) (nhead d) 0 True wq wk = Inr am"
    and ph: "PoseHeadSmallLinear_init (d_model d) (nhead d) wh = Inr ph"
    and m: "m = \<lparr>detr = DETR_set_grad False d, model_3d_net = net,
                 bbox_attention = am, pose_head = ph\<rparr>"
    by (auto simp: DETRpose_init_eq split: sum.splits)
  show ?thesis
    using DETR_set_grad_flags[of False d] assms(2) MHAttentionMap_init_flags[OF am]
      PoseHeadSmallLinear_init_flags[OF ph]
    by (simp add: m)
qed

lemma detr_values_set_grad: "detr_values (DETR_set_grad b d) = detr_values d"
  by (simp add: detr_values_def DETR_set_grad_def set_requires_grad_data comp_def)

lemma DETR_set_grad_fields:
  "backbone (DETR_set_grad b d) = backbone d"
  "input_proj (DETR_set_grad b d) = input_proj d"
  "transformer (DETR_set_grad b d) = transformer d"
  "class_embed (DETR_set_grad b d) = class_embed d"
  "bbox_embed (DETR_set_grad b d) = bbox_embed d"
  "aux_loss (DETR_set_grad b d) = aux_loss d"
  "data (query_embed (DETR_set_grad b d)) = data (query_embed d)"
  by (simp_all add: DETR_set_grad_def set_requires_grad_data)

lemma DETRpose_forward_set_grad:
  "DETRpose_forward pad (m\<lparr>detr := DETR_set_grad b (detr m)\<rparr>) training keep s
     = DETRpose_forward pad m training keep s"
  by (simp add: DETRpose_forward_def DETRpose_hidden_states_def DETRpose_features_def
      DETRpose_pose_stages_def detr_values_set_grad DETR_set_grad_fields Let_def
      cong: sum.case_cong option.case_cong prod.case_cong if_cong)

text \<open>
  C5: for the same detector, network and drawn weights, constructing with
  \<open>freeze_detr = True\<close> or \<open>False\<close> fails alike or gives modules whose forward pass
  returns the same result on every input.
\<close>

theorem DETRpose_forward_freeze_invariant:
  "map_sum id (\<lambda>m. DETRpose_forward pad m training keep s)
       (DETRpose_init d True net wq wk wh)
   = map_sum id (\<lambda>m. DETRpose_forward pad m training keep s)
       (DETRpose_init d False net wq wk wh)"
proof -
  have "DETRpose_forward pad \<lparr>detr = DETR_set_grad False d, model_3d_net = net,
            bbox_attention = am, pose_head = ph\<rparr> training keep s
      = DETRpose_forward pad \<lparr>detr = d, model_3d_net = net,
            bbox_attention = am, pose_head = ph\<rparr> training keep s" for am ph
    using DETRpose_forward_set_grad[where m = "\<lparr>detr = d, model_3d_net = net,
            bbox_attention = am, pose_head = ph\<rparr>" and b = False]
    by simp
  then show ?thesis
    by (simp add: DETRpose_init_eq split: sum.splits)
qed

lemma MHAttentionMap_forward_block:
  assumes "MHAttentionMap_forward am training keep q k = Inr w"
    and "dropout am = 0 \<or> \<not> training"
    and "length q = length k" and "b < length k"
  shows "length w = length k \<and> w ! b = MHAttentionMap_block am (q ! b) (k ! b)"
proof -
  from assms(1) obtain s where s: "MHAttentionMap_scores am q k = Inr s"
    and w: "w = Dropout_forward (dropout am) training keep (map (map flatten_softmax_view) s)"
    by (auto simp: MHAttentionMap_forward_def split: sum.splits)
  from w assms(2) have w': "w = map (map flatten_softmax_view) s"
    by (auto simp: Dropout_forward_def)
  let ?n = "MHAttentionMap.num_heads am"
  let ?c = "hidden_dim am div MHAttentionMap.num_heads am"
  let ?qh = "map (map (\<lambda>v. view_heads ?n ?c (Linear_forward (q_linear am) v))) q"
  let ?kh = "map (map (\<lambda>v. view_heads ?n ?c (Linear_forward (k_linear am) v))) k"
  have bc: "broadcast_b ?qh ?kh = Some (zip ?qh ?kh)"
    using assms(3) by (simp add: broadcast_b_def)
  from s have "s = map (\<lambda>(qb, kb). einsum_bqnm ?n (normalize_fact am) qb kb) (zip ?qh ?kh)"
    unfolding MHAttentionMap_scores_def Let_def bc
    by (simp split: if_splits)
  with w' assms(3,4) show ?thesis
    by (simp add: MHAttentionMap_block_def Let_def)
qed

lemma MHAttentionMap_forward_mode:
  assumes "dropout am = 0"
  shows "MHAttentionMap_forward am training keep q k
           = MHAttentionMap_forward am training' keep' q k"
  using assms by (simp add: MHAttentionMap_forward_def Dropout_forward_def split: sum.splits)

lemma DETRpose_init_dropout:
  assumes "DETRpose_init d fr net wq wk wh = Inr m"
  shows "dropout (bbox_attention m) = 0"
  using assms
  by (auto simp: DETRpose_init_eq MHAttentionMap_init_def split: sum.splits if_splits)

text \<open>
  C9: the attention map of a constructed \<open>DETRpose\<close> has dropout probability 0, so its
  dropout layer returns its input in both modes, and the attention weights and the whole
  result of the forward pass are the same in training and in evaluation mode, whatever
  the draw of the dropout layer.
\<close>

theorem DETRpose_forward_mode_invariant:
  assumes "DETRpose_init d fr net wq wk wh = Inr m"
  shows "dropout (bbox_attention m) = 0
         \<and> Dropout_forward (dropout (bbox_attention m)) training keep w = w
         \<and> MHAttentionMap_forward (bbox_attention m) training keep q k
             = MHAttentionMap_forward (bbox_attention m) training' keep' q k
         \<and> DETRpose_forward pad m training keep s = DETRpose_forward pad m training' keep' s"
proof -
  note z = DETRpose_init_dropout[OF assms]
  have a: "MHAttentionMap_forward (bbox_attention m) tr kp q' k'
      = MHAttentionMap_forward (bbox_attention m) training' keep' q' k'" for tr kp q' k'
    by (rule MHAttentionMap_forward_mode[OF z])
  have "DETRpose_pose_stages m training keep q' k'
      = DETRpose_pose_stages m training' keep' q' k'" for q' k'
    unfolding DETRpose_pose_stages_def a[of training keep] ..
  then have "DETRpose_forward pad m training keep s = DETRpose_forward pad m training' keep' s"
    unfolding DETRpose_forward_def
    by (simp add: Let_def cong: sum.case_cong prod.case_cong if_cong)
  with z a show ?thesis by (simp add: Dropout_forward_def)
qed

lemma MHAttentionMap_forward_not_assert:
  "MHAttentionMap_forward am training keep q k \<noteq> Inl AssertionError"
  by (auto simp: MHAttentionMap_forward_def MHAttentionMap_scores_def Let_def
      split: sum.splits if_splits option.splits)

lemma PoseHead_forward_not_assert:
  "PoseHeadSmallLinear_forward ph x attention \<noteq> Inl AssertionError"
  by (auto simp: PoseHeadSmallLinear_forward_def Let_def split: if_splits)

lemma DETRpose_pose_stages_not_assert:
  "DETRpose_pose_stages m training keep q k \<noteq> Inl AssertionError"
  using MHAttentionMap_forward_not_assert PoseHead_forward_not_assert
  by (auto simp: DETRpose_pose_stages_def split: sum.splits)

lemma DETRpose_hidden_states_assert:
  assumes "fst (DETRpose_features pad m s) \<noteq> []"
  shows "DETRpose_hidden_states pad m s = Inl AssertionError
           \<longleftrightarrow> mask (last (fst (DETRpose_features pad m s))) = None"
  using assms
  by (auto simp: DETRpose_hidden_states_def Let_def decompose_def
      split: prod.splits option.splits if_splits)

lemma DETRpose_forward_assert_iff:
  "DETRpose_forward pad m training keep s = Inl AssertionError
     \<longleftrightarrow> DETRpose_hidden_states pad m s = Inl AssertionError"
  using DETRpose_pose_stages_not_assert[of m training keep]
  by (auto simp: DETRpose_forward_def Let_def split: sum.splits prod.splits if_splits)

text \<open>
  C7: when the backbone returns at least one feature map, the forward pass fails with
  the assertion error exactly when the mask of the last feature map is absent; with a
  mask present (and a positional encoding to index) the pass goes on to the transformer.
\<close>

theorem DETRpose_forward_assertion_iff_no_mask:
  assumes "fst (DETRpose_features pad m s) \<noteq> []"
  shows "(DETRpose_forward pad m training keep s = Inl AssertionError
            \<longleftrightarrow> mask (last (fst (DETRpose_features pad m s))) = None)
         \<and> (mask (last (fst (DETRpose_features pad m s))) \<noteq> None
              \<and> snd (DETRpose_features pad m s) \<noteq> []
            \<longrightarrow> (\<exists>bs hs. DETRpose_hidden_states pad m s = Inr (bs, hs)))"
proof -
  have 1: "DETRpose_forward pad m training keep s = Inl AssertionError
            \<longleftrightarrow> mask (last (fst (DETRpose_features pad m s))) = None"
    unfolding DETRpose_forward_assert_iff by (rule DETRpose_hidden_states_assert[OF assms])
  have 2: "mask (last (fst (DETRpose_features pad m s))) \<noteq> None
              \<and> snd (DETRpose_features pad m s) \<noteq> []
            \<longrightarrow> (\<exists>bs hs. DETRpose_hidden_states pad m s = Inr (bs, hs))"
    using assms
    by (auto simp: DETRpose_hidden_states_def Let_def decompose_def
        split: prod.splits option.splits)
  from 1 2 show ?thesis by blast
qed

lemma attention_module_8_init:
  "MHAttentionMap_init 8 8 8 0 True ones ones = Inr attention_module_8"
  by (simp add: attention_module_8_def MHAttentionMap_init_def)

lemma detr_example_dims: "d_model detr_example = 8" "nhead detr_example = 8"
  by (simp_all add: detr_example_def)

lemma detrpose_example_init:
  "DETRpose_init detr_example True model_3d_net_example ones ones head_weights_example
     = Inr detrpose_example"
  by (simp add: detrpose_example_def DETRpose_init_eq detr_example_dims
      attention_module_8_init pose_head_example_init)

lemma detrpose_example_fields:
  "detr detrpose_example = DETR_set_grad False detr_example"
  "model_3d_net detrpose_example = model_3d_net_example"
  "bbox_attention detrpose_example = attention_module_8"
  "pose_head detrpose_example = pose_head_example"
  by (simp_all add: detrpose_example_def DETRpose_init_eq detr_example_dims
      attention_module_8_init pose_head_example_init)

theorem DETRpose_init_freezes_detr_only_witness:
  "DETRpose_init detr_example True model_3d_net_example ones ones head_weights_example
     = Inr detrpose_example
   \<and> Model3DNet_flags model_3d_net_example = [True]
   \<and> DETR_flags (detr detrpose_example) = [False, False]
   \<and> Model3DNet_flags (model_3d_net detrpose_example) = [True]
   \<and> list_all (\<lambda>f. f = True) (MHAttentionMap_flags (bbox_attention detrpose_example))
   \<and> list_all (\<lambda>f. f = True) (PoseHead_flags (pose_head detrpose_example))"
proof -
  have f: "Model3DNet_flags model_3d_net_example = [True]"
    by (simp add: Model3DNet_flags_def model_3d_net_example_def Parameter_def)
  then have f': "list_all (\<lambda>f. f = True) (Model3DNet_flags model_3d_net_example)" by simp
  have l: "length (DETR_flags (detr detrpose_example)) = 2"
    by (simp add: detrpose_example_fields DETR_flags_def DETR_set_grad_def detr_example_def)
  have m: "Model3DNet_flags (model_3d_net detrpose_example) = [True]"
    by (simp add: detrpose_example_fields f)
  from DETRpose_init_freezes_detr_only[OF detrpose_example_init f']
  have c: "list_all (\<lambda>f. f = False) (DETR_flags (detr detrpose_example))"
    "list_all (\<lambda>f. f = True) (MHAttentionMap_flags (bbox_attention detrpose_example))"
    "list_all (\<lambda>f. f = True) (PoseHead_flags (pose_head detrpose_example))"
    by simp_all
  from c(1) l have "DETR_flags (detr detrpose_example) = [False, False]"
    by (cases "DETR_flags (detr detrpose_example)"; cases "tl (DETR_flags (detr detrpose_example))")
       auto
  with detrpose_example_init f m c show ?thesis by blast
qed

theorem DETRpose_forward_mode_invariant_witness:
  "DETRpose_init detr_example True model_3d_net_example ones ones head_weights_example
     = Inr detrpose_example
   \<and> dropout (bbox_attention detrpose_example) = 0
   \<and> DETRpose_forward pad_example detrpose_example True keep_all samples_example
       = DETRpose_forward pad_example detrpose_example False keep_all samples_example"
  using DETRpose_forward_mode_invariant[OF detrpose_example_init,
      where training = True and keep = keep_all and training' = False and keep' = keep_all
        and pad = pad_example and s = samples_example]
    detrpose_example_init
  by blast

lemma detrpose_example_features:
  "DETRpose_features pad detrpose_example (SamplesNested nt) = ([nt], [tensors nt])"
  by (simp add: DETRpose_features_def detrpose_example_fields DETR_set_grad_fields
      detr_example_def)

theorem DETRpose_forward_assertion_iff_no_mask_witness:
  "fst (DETRpose_features pad_example detrpose_example samples_nomask_example)
     = [\<lparr>tensors = [[[[0]]]], mask = None\<rparr>]
   \<and> DETRpose_forward pad_example detrpose_example True keep_all samples_nomask_example
       = Inl AssertionError
   \<and> fst (DETRpose_features pad_example detrpose_example samples_example)
       = [\<lparr>tensors = [[[[0]]]], mask = Some [[[False]]]\<rparr>]
   \<and> snd (DETRpose_features pad_example detrpose_example samples_example) = [[[[[0]]]]]
   \<and> DETRpose_forward pad_example detrpose_example True keep_all samples_example
       \<noteq> Inl AssertionError
   \<and> (\<exists>bs hs. DETRpose_hidden_states pad_example detrpose_example samples_example
                 = Inr (bs, hs))"
proof -
  have a: "DETRpose_features pad_example detrpose_example samples_nomask_example
      = ([\<lparr>tensors = [[[[0]]]], mask = None\<rparr>], [[[[[0]]]]])"
    by (simp add: samples_nomask_example_def detrpose_example_features)
  have b: "DETRpose_features pad_example detrpose_example samples_example
      = ([\<lparr>tensors = [[[[0]]]], mask = Some [[[False]]]\<rparr>], [[[[[0]]]]])"
    by (simp add: samples_example_def detrpose_example_features)
  have na: "fst (DETRpose_features pad_example detrpose_example samples_nomask_example) \<noteq> []"
    by (simp add: a)
  have nb: "fst (DETRpose_features pad_example detrpose_example samples_example) \<noteq> []"
    by (simp add: b)
  from DETRpose_forward_assertion_iff_no_mask[OF na, of True keep_all]
  have 1: "DETRpose_forward pad_example detrpose_example True keep_all samples_nomask_example
       = Inl AssertionError"
    by (simp add: a)
  from DETRpose_forward_assertion_iff_no_mask[OF nb, of True keep_all]
  have 2: "DETRpose_forward pad_example detrpose_example True keep_all samples_example
       \<noteq> Inl AssertionError"
    "\<exists>bs hs. DETRpose_hidden_states pad_example detrpose_example samples_example
                 = Inr (bs, hs)"
    by (simp_all add: b)
  from a b 1 2 show ?thesis by simp
qed

lemma attention_module_8_fields:
  "MHAttentionMap.num_heads attention_module_8 = 8" "hidden_dim attention_module_8 = 8"
  "dropout attention_module_8 = 0" "normalize_fact attention_module_8 = 1"
  "q_linear attention_module_8 = nn_Linear 8 8 ones (\<lambda>_. 0)"
  "k_linear attention_module_8 = nn_Linear 8 8 ones (\<lambda>_. 0)"
  by (simp_all add: attention_module_8_def MHAttentionMap_init_def)

lemma ones_linear_8:
  "Linear_forward (nn_Linear 8 8 ones (\<lambda>_. 0)) [a0, a1, a2, a3, a4, a5, a6, a7]
     = replicate 8 (a0 + a1 + a2 + a3 + a4 + a5 + a6 + a7)"
  by (simp add: nn_Linear_def Parameter_def Linear_forward_def dot_def ones_def upt8 rep8)

lemma view_heads_8_1:
  "view_heads 8 (Suc 0) [a0, a1, a2, a3, a4, a5, a6, a7]
     = [[a0], [a1], [a2], [a3], [a4], [a5], [a6], [a7]]"
  by (simp add: eval_nat_numeral)

lemma view_heads_8_2:
  "view_heads 8 2 (replicate 16 a) = replicate 8 [a, a]"
  by (simp add: eval_nat_numeral)

lemma attention_8_scores:
  "MHAttentionMap_scores attention_module_8 [[replicate 8 0]] [[replicate 8 1, replicate 8 2]]
     = Inr [[replicate 8 [0, 0]]]"
proof -
  have g: "is_tensor3 [[replicate 8 (0::real)]]" "is_tensor3 [[replicate 8 (1::real), replicate 8 2]]"
    "last_dim_is 8 [[replicate 8 (0::real)]]" "last_dim_is 8 [[replicate 8 (1::real), replicate 8 2]]"
    "numrows [[replicate 8 (0::real)]] = 1" "numrows [[replicate 8 (1::real), replicate 8 2]] = 2"
    by (simp_all add: is_tensor3_def is_mat_def dim1_def last_dim_is_def numrows_def)
  show ?thesis
    unfolding MHAttentionMap_scores_def Let_def attention_module_8_fields
    by (simp add: g nn_Linear_wf nn_Linear_dims)
       (simp add: rep8 ones_linear_8 view_heads_8_1 broadcast_b_def einsum_bqnm_def upt8 dot_def)
qed

lemma softmax_zeros_16: "softmax (replicate 16 0) = replicate 16 (1/16)"
  by (simp add: softmax_def eval_nat_numeral)

lemma attention_8_forward:
  "MHAttentionMap_forward attention_module_8 training keep
       [[replicate 8 0]] [[replicate 8 1, replicate 8 2]]
     = Inr [[replicate 8 [1/16, 1/16]]]"
proof -
  have c: "concat (replicate 8 [0, 0 :: real]) = replicate 16 0"
    by (simp add: eval_nat_numeral)
  have "flatten_softmax_view (replicate 8 [0, 0]) = replicate 8 [1/16, 1/16]"
    unfolding flatten_softmax_view_def c softmax_zeros_16
    using view_heads_8_2[of "1/16 :: real"] by (simp add: dim1_def rep8)
  then show ?thesis
    by (simp add: MHAttentionMap_forward_def attention_8_scores Dropout_forward_def
        attention_module_8_fields)
qed

lemma pose_head_example_fused_uniform:
  "PoseHead_fused pose_head_example model_features_example [[replicate 8 [a, b]]]
     = [[[replicate 8 0 @ replicate 8 a, replicate 8 0 @ replicate 8 b]]]"
  unfolding PoseHead_fused_def model_features_example_def
  by (simp add: pose_head_example_refine_lists cat_features_def imap_def rep8
      upt_rec[of 0 2] upt_rec[of 1 2])

lemma pose_head_example_branches:
  assumes "0 \<le> a"
  shows "Linear_forward (l3 pose_head_example)
           (Sequential_forward (l2 pose_head_example) (replicate 8 0 @ replicate 8 a))
         = [- (512 * a)]"
    and "pose_branch pose_head_example (replicate 8 0 @ replicate 8 a) = replicate 6 (512 * a)"
    and "class_ok pose_head_example (replicate 8 0 @ replicate 8 a)"
    and "pose_ok pose_head_example (replicate 8 0 @ replicate 8 a)"
proof -
  have r: "relu (2 * relu (4 * relu (8 * relu (8 * a)))) = 512 * a"
    using assms by (simp add: relu_def max_def)
  show "Linear_forward (l3 pose_head_example)
           (Sequential_forward (l2 pose_head_example) (replicate 8 0 @ replicate 8 a))
         = [- (512 * a)]"
    by (simp add: pose_head_example_fields pose_head_example_stack r)
       (simp add: nn_Linear_def Parameter_def Linear_forward_def dot_def
         head_weights_example_def upt1)
  show "pose_branch pose_head_example (replicate 8 0 @ replicate 8 a) = replicate 6 (512 * a)"
    by (simp add: pose_branch_def pose_head_example_fields pose_head_example_stack r)
       (simp add: nn_Linear_def Parameter_def Linear_forward_def dot_def
         head_weights_example_def upt1 upt6 eval_nat_numeral)
  show "class_ok pose_head_example (replicate 8 0 @ replicate 8 a)"
    "pose_ok pose_head_example (replicate 8 0 @ replicate 8 a)"
    by (simp_all add: class_ok_def pose_ok_def pose_head_example_fields halving_stack_16_out
        nn_Linear_wf nn_Linear_dims)
qed

lemma pose_head_example_forward_uniform:
  "PoseHeadSmallLinear_forward pose_head_example model_features_example
       [[replicate 8 [1/16, 1/16]]]
     = Inr ([[[1/2, 1/2]]], [[[replicate 6 32, replicate 6 32]]])"
proof -
  have a: "is_tensor3 model_features_example" "Linear_wf (l1 pose_head_example)"
    "last_dim_is (in_features (l1 pose_head_example)) model_features_example"
    by (simp_all add: model_features_example_def pose_head_example_fields nn_Linear_wf
        nn_Linear_dims is_tensor3_def is_mat_def dim1_def last_dim_is_def)
  have b: "num_groups (g1 pose_head_example) = 8" "out_features (l1 pose_head_example) = 8"
    "length model_features_example = 1" "dim1 model_features_example = 2"
    by (simp_all add: model_features_example_def pose_head_example_fields nn_Linear_dims
        dim1_def)
  have c: "group_norm_ok (g1 pose_head_example) 8"
    by (simp add: group_norm_ok_def pose_head_example_fields Parameter_def)
  have d: "cat_ok model_features_example [[replicate 8 [1/16, 1/16]]]"
    by (simp add: cat_ok_def model_features_example_def
        is_tensor4_def is_tensor3_def is_mat_def dim1_def rep8)
  note e = pose_head_example_branches[of "1/16"]
  have f: "class_branch pose_head_example
      [replicate 8 0 @ replicate 8 (1/16), replicate 8 0 @ replicate 8 (1/16)] = [1/2, 1/2]"
    using e(1) by (simp add: class_branch_def relu_def softmax_def)
  show ?thesis
    unfolding PoseHeadSmallLinear_forward_def pose_head_example_fused_uniform Let_def
    using e f by (simp add: a b c d)
qed

lemma detrpose_example_stages:
  "DETRpose_pose_stages detrpose_example training keep [[replicate 8 0]] model_features_example
     = Inr ([[replicate 8 [1/16, 1/16]]], [[[1/2, 1/2]]], [[[replicate 6 32, replicate 6 32]]])"
  unfolding DETRpose_pose_stages_def detrpose_example_fields
  using attention_8_forward[of training keep]
  by (simp add: model_features_example_def pose_head_example_forward_uniform[unfolded model_features_example_def])


lemma detrpose_example_hidden_states:
  "DETRpose_hidden_states pad detrpose_example samples_example
     = Inr (1, [[[replicate 8 0]], [[replicate 8 0]]])"
  by (simp add: DETRpose_hidden_states_def samples_example_def detrpose_example_features
      decompose_def detrpose_example_fields DETR_set_grad_fields)
     (simp add: detr_example_def Parameter_def)

lemma detrpose_example_forward:
  "DETRpose_forward pad detrpose_example training keep samples_example = Inr out_example"
proof -
  have t: "is_tensor4 [[[[0, 0 :: real]]], [[[0, 0]]]]"
    "is_tensor4 [[[[1/2, 1/2, 1/2, 1/2 :: real]]], [[[1/2, 1/2, 1/2, 1/2]]]]"
    by (simp_all add: is_tensor4_def is_tensor3_def is_mat_def dim1_def)
  have e: "class_embed (detr detrpose_example) ps v = [0, 0]"
    "bbox_embed (detr detrpose_example) ps v = [0, 0, 0, 0]"
    "aux_loss (detr detrpose_example) = True" for ps v
    by (simp_all add: detrpose_example_fields DETR_set_grad_fields detr_example_def)
  have n: "forward_encoder (model_3d_net detrpose_example) ps = [replicate 8 1, replicate 8 2]"
    "forward_decoder (model_3d_net detrpose_example) ps f = (f, f, f)" for ps f
    by (simp_all add: detrpose_example_fields model_3d_net_example_def)
  show ?thesis
    unfolding DETRpose_forward_def detrpose_example_hidden_states
    by (simp add: e n t sigmoid_def set_aux_loss_def Let_def
        detrpose_example_stages[unfolded model_features_example_def] out_example_def)
qed

lemma map_const_replicate: "\<forall>x\<in>set xs. f x = c \<Longrightarrow> map f xs = replicate (length xs) c"
  by (induction xs) auto

lemma tensor4_layer_shape:
  assumes "is_tensor4 t" and "a \<in> set t"
  shows "shape3 a = replicate (dim1 t) (replicate (dim1 (concat t)) (dim1 (concat (concat t))))"
proof -
  from assms have la: "length a = dim1 t"
    and t3: "is_tensor3 (concat t)"
    by (auto simp: is_tensor4_def list_all_iff)
  have rows: "map length A = replicate (dim1 (concat t)) (dim1 (concat (concat t)))"
    if "A \<in> set a" for A
  proof -
    from that assms(2) have A: "A \<in> set (concat t)" by auto
    with t3 have lA: "length A = dim1 (concat t)"
      by (auto simp: is_tensor3_def list_all_iff)
    have "\<forall>r\<in>set A. length r = dim1 (concat (concat t))"
      using t3 A by (auto simp: is_tensor3_def is_mat_def list_all_iff)
    from map_const_replicate[OF this] lA show ?thesis by simp
  qed
  then have "\<forall>A\<in>set a. map length A = replicate (dim1 (concat t)) (dim1 (concat (concat t)))"
    by blast
  from map_const_replicate[OF this] la show ?thesis by (simp add: shape3_def)
qed

lemma tensor4_same_shape:
  assumes "is_tensor4 t" and "a \<in> set t" and "t \<noteq> []"
  shows "shape3 a = shape3 (last t)"
  using tensor4_layer_shape[OF assms(1,2)] tensor4_layer_shape[OF assms(1), of "last t"] assms(3)
  by simp

lemma set_aux_loss_members:
  assumes "e \<in> set (set_aux_loss oc ob)"
  shows "pred_logits e \<in> set oc \<and> pred_boxes e \<in> set ob"
  using assms by (auto simp: set_aux_loss_def dest!: set_zip_leftD set_zip_rightD in_set_butlastD
      elim!: in_set_zipE)

lemma set_aux_loss_map:
  "set_aux_loss (map f hs) (map g hs)
     = map (\<lambda>h. \<lparr>pred_logits = f h, pred_boxes = g h\<rparr>) (butlast hs)"
  by (simp add: set_aux_loss_def map_butlast[symmetric] zip_map_map zip_same_conv_map)

lemma DETRpose_forward_Inr:
  assumes "DETRpose_forward pad m training keep s = Inr out"
  shows "\<exists>bs hs. DETRpose_hidden_states pad m s = Inr (bs, hs) \<and> hs \<noteq> []
           \<and> is_tensor4 (map (map (map (class_embed (detr m) (detr_values (detr m))))) hs)
           \<and> is_tensor4 (map (map (map (\<lambda>v. map sigmoid
                  (bbox_embed (detr m) (detr_values (detr m)) v)))) hs)
           \<and> pred_logits out = last (map (map (map (class_embed (detr m) (detr_values (detr m))))) hs)
           \<and> pred_boxes out = last (map (map (map (\<lambda>v. map sigmoid
                  (bbox_embed (detr m) (detr_values (detr m)) v)))) hs)
           \<and> aux_outputs out =
               (if aux_loss (detr m)
                then Some (set_aux_loss
                       (map (map (map (class_embed (detr m) (detr_values (detr m))))) hs)
                       (map (map (map (\<lambda>v. map sigmoid
                          (bbox_embed (detr m) (detr_values (detr m)) v)))) hs))
                else None)"
  using assms
  by (auto simp: DETRpose_forward_def Let_def split: sum.splits prod.splits if_splits)

text \<open>
  C6: when the forward pass returns and the detector's \<open>aux_loss\<close> is set, the result
  has \<open>aux_outputs\<close>, a list with one entry for every decoder layer but the last, made
  of that layer's class logits and box coordinates, whose shapes are those of
  \<open>pred_logits\<close> and \<open>pred_boxes\<close>; when the flag is not set the field is absent.
\<close>

theorem DETRpose_forward_aux_outputs:
  assumes "DETRpose_forward pad m training keep s = Inr out"
  shows "\<exists>bs hs. DETRpose_hidden_states pad m s = Inr (bs, hs)
           \<and> (if aux_loss (detr m)
               then \<exists>aux. aux_outputs out = Some aux
                      \<and> length aux = length hs - 1
                      \<and> aux = map (\<lambda>h. \<lparr>pred_logits =
                                          map (map (class_embed (detr m) (detr_values (detr m)))) h,
                                        pred_boxes =
                                          map (map (\<lambda>v. map sigmoid
                                            (bbox_embed (detr m) (detr_values (detr m)) v))) h\<rparr>)
                                (butlast hs)
                      \<and> list_all (\<lambda>e. shape3 (pred_logits e) = shape3 (pred_logits out)
                                      \<and> shape3 (pred_boxes e) = shape3 (pred_boxes out)) aux
               else aux_outputs out = None)"
proof -
  let ?f = "map (map (class_embed (detr m) (detr_values (detr m))))"
  let ?g = "map (map (\<lambda>v. map sigmoid (bbox_embed (detr m) (detr_values (detr m)) v)))"
  from DETRpose_forward_Inr[OF assms] obtain bs hs where
    hs: "DETRpose_hidden_states pad m s = Inr (bs, hs)" and ne: "hs \<noteq> []"
    and t: "is_tensor4 (map ?f hs)" "is_tensor4 (map ?g hs)"
    and o: "pred_logits out = last (map ?f hs)" "pred_boxes out = last (map ?g hs)"
    and a: "aux_outputs out
              = (if aux_loss (detr m) then Some (set_aux_loss (map ?f hs) (map ?g hs)) else None)"
    by blast
  let ?aux = "set_aux_loss (map ?f hs) (map ?g hs)"
  have 1: "?aux = map (\<lambda>h. \<lparr>pred_logits = ?f h, pred_boxes = ?g h\<rparr>) (butlast hs)"
    by (rule set_aux_loss_map)
  then have 2: "length ?aux = length hs - 1" by simp
  have 3: "list_all (\<lambda>e. shape3 (pred_logits e) = shape3 (pred_logits out)
                         \<and> shape3 (pred_boxes e) = shape3 (pred_boxes out)) ?aux"
    unfolding list_all_iff
  proof
    fix e assume "e \<in> set ?aux"
    from set_aux_loss_members[OF this]
    have "pred_logits e \<in> set (map ?f hs)" "pred_boxes e \<in> set (map ?g hs)" by simp_all
    with t ne o show "shape3 (pred_logits e) = shape3 (pred_logits out)
                         \<and> shape3 (pred_boxes e) = shape3 (pred_boxes out)"
      using tensor4_same_shape[of "map ?f hs" "pred_logits e"]
        tensor4_same_shape[of "map ?g hs" "pred_boxes e"] by simp
  qed
  show ?thesis
  proof (cases "aux_loss (detr m)")
    case True
    with a 1 2 3 hs show ?thesis by auto
  next
    case False
    with a hs show ?thesis by auto
  qed
qed

theorem DETRpose_forward_aux_outputs_witness:
  "DETRpose_forward pad_example detrpose_example True keep_all samples_example = Inr out_example
   \<and> DETRpose_hidden_states pad_example detrpose_example samples_example
       = Inr (1, [[[replicate 8 0]], [[replicate 8 0]]])
   \<and> aux_loss (detr detrpose_example) = True
   \<and> (\<exists>aux. aux_outputs out_example = Some aux
          \<and> length aux = length [[[replicate 8 (0::real)]], [[replicate 8 0]]] - 1)"
proof -
  have a: "aux_loss (detr detrpose_example) = True"
    by (simp add: detrpose_example_fields DETR_set_grad_fields detr_example_def)
  from DETRpose_forward_aux_outputs[OF detrpose_example_forward[of pad_example True keep_all]]
  have "\<exists>aux. aux_outputs out_example = Some aux
          \<and> length aux = length [[[replicate 8 (0::real)]], [[replicate 8 0]]] - 1"
    by (auto simp: a detrpose_example_hidden_states)
  with detrpose_example_forward detrpose_example_hidden_states a show ?thesis by blast
qed

section \<open>The forward passes return on well-shaped inputs\<close>

text \<open>
  A head with the shapes of its constructor returns on model features of width \<open>dims\<close>
  and an attention of \<open>heads\<close> heads that agree on batch and model sizes, unless the
  group normalisation sees a single value; a constructed attention map whose heads
  divide its width returns on queries and keys of its input width and equal batch size.
\<close>

lemma length_Linear_forward:
  "Linear_wf l \<Longrightarrow> length (Linear_forward l v) = out_features l"
  by (simp add: Linear_wf_def Linear_forward_def)

lemma GroupNorm_forward_rows:
  "row \<in> set (GroupNorm_forward gn xb) \<Longrightarrow> \<exists>r \<in> set xb. length row = length r"
  by (auto simp: GroupNorm_forward_def Let_def length_imap)

lemma refine_features_rows:
  assumes "Linear_wf (l1 ph)" and "row \<in> set (refine_features ph xb)"
  shows "length row = out_features (l1 ph)"
proof -
  from assms(2) obtain r where "r \<in> set (GroupNorm_forward (g1 ph) (map (Linear_forward (l1 ph)) xb))"
    and "length row = length r"
    by (auto simp: refine_features_def)
  with GroupNorm_forward_rows[OF this(1)] assms(1) show ?thesis
    by (auto simp: length_Linear_forward)
qed

lemma cat_features_rows:
  assumes "v \<in> set rows" and "rows \<in> set (cat_features xb attb)"
  shows "\<exists>xrow \<in> set xb. \<exists>attq \<in> set attb. length v = length xrow + length attq"
  using assms
  by (auto simp: cat_features_def imap_def in_set_zip) (metis nth_mem)

lemma halving_stack_arch_out:
  assumes "halving_stack_arch nf ms"
  shows "Sequential_out ms nf = Some (nf div 16)"
proof -
  from halving_stack_arch_form[OF assms] obtain a0 a1 a2 a3 where
    "ms = [Lin a0, ReLU, Lin a1, ReLU, Lin a2, ReLU, Lin a3, ReLU]"
    "Linear_shape a0 = (nf, nf div 2)" "Linear_shape a1 = (nf div 2, nf div 4)"
    "Linear_shape a2 = (nf div 4, nf div 8)" "Linear_shape a3 = (nf div 8, nf div 16)"
    "Linear_wf a0" "Linear_wf a1" "Linear_wf a2" "Linear_wf a3"
    by blast
  then show ?thesis by (simp add: Linear_shape_def)
qed

lemma PoseHeadSmallLinear_forward_returns:
  assumes arch: "PoseHead_arch dims heads ph"
    and x: "is_tensor3 x" "last_dim_is dims x"
    and att: "cat_ok x attention" "list_all (list_all (\<lambda>blk. length blk = heads)) attention"
    and one: "length x * dims div 8 * dim1 x \<noteq> 1"
  shows "\<exists>x_c x_p. PoseHeadSmallLinear_forward ph x attention = Inr (x_c, x_p)"
proof -
  from arch have l1: "Linear_wf (l1 ph)" "in_features (l1 ph) = dims" "out_features (l1 ph) = dims"
    and g: "num_groups (g1 ph) = 8" "group_norm_ok (g1 ph) dims"
    and s2: "halving_stack_arch (dims + heads) (l2 ph)"
    and l3: "Linear_wf (l3 ph)" "in_features (l3 ph) = (dims + heads) div 16"
      "out_features (l3 ph) = 1"
    and s4: "halving_stack_arch (dims + heads) (l4 ph)"
    and l5: "Linear_wf (l5 ph)" "in_features (l5 ph) = (dims + heads) div 16"
    by (simp_all add: PoseHead_arch_def Linear_shape_def)
  have len: "length v = dims + heads"
    if "v \<in> set rows" "rows \<in> set blk" "blk \<in> set (PoseHead_fused ph x attention)"
    for v rows blk
  proof -
    from that(3) obtain xb attb where xa: "(xb, attb) \<in> set (zip x attention)"
      and blk: "blk = cat_features (refine_features ph xb) attb"
      by (auto simp: PoseHead_fused_def)
    from cat_features_rows[OF that(1) that(2)[unfolded blk]] obtain xrow attq where
      xr: "xrow \<in> set (refine_features ph xb)" and aq: "attq \<in> set attb"
      and lv: "length v = length xrow + length attq" by blast
    from xa have "attb \<in> set attention" by (auto dest: set_zip_rightD)
    with att(2) aq have "length attq = heads" by (auto simp: list_all_iff)
    with lv refine_features_rows[OF l1(1) xr] l1(3) show ?thesis by simp
  qed
  have c: "list_all (list_all (list_all (class_ok ph))) (PoseHead_fused ph x attention)"
    unfolding list_all_iff class_ok_def
    using len halving_stack_arch_out[OF s2] l3 by auto
  have p: "list_all (list_all (list_all (pose_ok ph))) (PoseHead_fused ph x attention)"
    unfolding list_all_iff pose_ok_def
    using len halving_stack_arch_out[OF s4] l5 by auto
  show ?thesis
    using x att(1) one l1 g c p by (simp add: PoseHead_forward_eq_Inr)
qed

lemma MHAttentionMap_forward_returns:
  assumes init: "MHAttentionMap_init query_dim hidden heads p True wq wk = Inr am"
    and dvd: "hidden mod heads = 0"
    and q: "is_tensor3 q" "last_dim_is query_dim q"
    and k: "is_tensor3 k" "last_dim_is query_dim k"
    and b: "length q = length k"
  shows "\<exists>w. MHAttentionMap_forward am training keep q k = Inr w"
proof -
  from init have am: "MHAttentionMap.num_heads am = heads" "hidden_dim am = hidden"
    "q_linear am = nn_Linear query_dim hidden wq (\<lambda>_. 0)"
    "k_linear am = nn_Linear query_dim hidden wk (\<lambda>_. 0)" and h: "heads \<noteq> 0"
    by (auto simp: MHAttentionMap_init_def split: if_splits)
  from dvd have v: "heads * (hidden div heads) = hidden" by auto
  have "\<exists>s. MHAttentionMap_scores am q k = Inr s"
    unfolding MHAttentionMap_scores_def Let_def am
    using q k b h v by (simp add: nn_Linear_wf nn_Linear_dims broadcast_b_def)
  then show ?thesis by (auto simp: MHAttentionMap_forward_def)
qed

section \<open>Independence of the batch elements\<close>

lemma pose_head_example_refine_any:
  "refine_features pose_head_example
     [[a0, a1, a2, a3, a4, a5, a6, a7], [b0, b1, b2, b3, b4, b5, b6, b7]]
     = [[0,0,0,0,0,0,0,0], [0,0,0,0,0,0,0,0]]"
  unfolding refine_features_def pose_head_example_fields GroupNorm_forward_def
  by (simp add: nn_Linear_def Parameter_def Linear_forward_def dot_def head_weights_example_def
      upt8 rep8 imap_def group_values_def mean_def variance_def relu_def Let_def)

lemma attention_8_scores_batch:
  "MHAttentionMap_scores attention_module_8 queries_example features_example
     = Inr [[replicate 8 [0, 0]], [replicate 8 [0, ln 3]]]"
proof -
  have g: "is_tensor3 queries_example" "is_tensor3 features_example"
    "last_dim_is 8 queries_example" "last_dim_is 8 features_example"
    "numrows queries_example = 2" "numrows features_example = 4"
    by (simp_all add: queries_example_def features_example_def is_tensor3_def is_mat_def
        dim1_def last_dim_is_def numrows_def)
  show ?thesis
    unfolding MHAttentionMap_scores_def Let_def attention_module_8_fields
    by (simp add: g nn_Linear_wf nn_Linear_dims)
       (simp add: queries_example_def features_example_def rep8 ones_linear_8 view_heads_8_1
         broadcast_b_def einsum_bqnm_def upt8 dot_def)
qed

lemma flatten_softmax_view_ln3:
  "flatten_softmax_view (replicate 8 [0, ln 3]) = replicate 8 [1/32, 3/32]"
  by (simp add: flatten_softmax_view_def rep8 dim1_def softmax_def eval_nat_numeral)

lemma flatten_softmax_view_zeros:
  "flatten_softmax_view (replicate 8 [0, 0]) = replicate 8 [1/16, 1/16]"
  by (simp add: flatten_softmax_view_def rep8 dim1_def softmax_def eval_nat_numeral)

lemma attention_8_forward_batch:
  "MHAttentionMap_forward attention_module_8 training keep queries_example features_example
     = Inr [[replicate 8 [1/16, 1/16]], [replicate 8 [1/32, 3/32]]]"
  by (simp add: MHAttentionMap_forward_def attention_8_scores_batch Dropout_forward_def
      attention_module_8_fields flatten_softmax_view_ln3 flatten_softmax_view_zeros)

lemma pose_head_example_fused_batch:
  "PoseHead_fused pose_head_example features_example attention_batch_example
     = [[[replicate 8 0 @ replicate 8 (1/16), replicate 8 0 @ replicate 8 (1/16)]],
        [[replicate 8 0 @ replicate 8 (1/32), replicate 8 0 @ replicate 8 (3/32)]]]"
  unfolding PoseHead_fused_def features_example_def attention_batch_example_def
  by (simp add: rep8 pose_head_example_refine_any cat_features_def imap_def
      upt_rec[of 0 2] upt_rec[of 1 2])

lemma pose_head_example_forward_batch:
  "PoseHeadSmallLinear_forward pose_head_example features_example attention_batch_example
     = Inr ([[[1/2, 1/2]], [[1/2, 1/2]]],
            [[[replicate 6 32, replicate 6 32]], [[replicate 6 16, replicate 6 48]]])"
proof -
  have a: "is_tensor3 features_example" "Linear_wf (l1 pose_head_example)"
    "last_dim_is (in_features (l1 pose_head_example)) features_example"
    by (simp_all add: features_example_def pose_head_example_fields nn_Linear_wf
        nn_Linear_dims is_tensor3_def is_mat_def dim1_def last_dim_is_def)
  have b: "num_groups (g1 pose_head_example) = 8" "out_features (l1 pose_head_example) = 8"
    "length features_example = 2" "dim1 features_example = 2"
    by (simp_all add: features_example_def pose_head_example_fields nn_Linear_dims dim1_def)
  have c: "group_norm_ok (g1 pose_head_example) 8"
    by (simp add: group_norm_ok_def pose_head_example_fields Parameter_def)
  have d: "cat_ok features_example attention_batch_example"
    by (simp add: cat_ok_def features_example_def attention_batch_example_def
        is_tensor4_def is_tensor3_def is_mat_def dim1_def rep8)
  note e1 = pose_head_example_branches[of "1/16"]
  note e2 = pose_head_example_branches[of "1/32"]
  note e3 = pose_head_example_branches[of "3/32"]
  have f: "class_branch pose_head_example
      [replicate 8 0 @ replicate 8 (1/16), replicate 8 0 @ replicate 8 (1/16)] = [1/2, 1/2]"
    using e1(1) by (simp add: class_branch_def relu_def softmax_def)
  show ?thesis
    unfolding PoseHeadSmallLinear_forward_def pose_head_example_fused_batch Let_def
    using e1 e2 e3 f pose_head_example_class by (simp add: a b c d)
qed

lemma detrpose_example_stages_batch:
  "DETRpose_pose_stages detrpose_example training keep queries_example features_example
     = Inr (attention_batch_example, [[[1/2, 1/2]], [[1/2, 1/2]]],
            [[[replicate 6 32, replicate 6 32]], [[replicate 6 16, replicate 6 48]]])"
  unfolding DETRpose_pose_stages_def detrpose_example_fields
  using attention_8_forward_batch[of training keep]
  by (simp add: attention_batch_example_def[symmetric] pose_head_example_forward_batch)

text \<open>
  C8: take two runs of the attention and the head that return, on feature sets \<open>X\<close>
  and \<open>X'\<close> of any batch sizes and any rows, such as the shared set tiled and a batch
  given directly. The outputs of the first run for batch element \<open>b\<close> are computed from
  the row \<open>X ! b\<close> and the queries of that element alone, and where the second run has
  the same row and queries at \<open>b'\<close> its outputs there are the same. Whether a run
  returns can depend on the batch size, through the check of the group normalisation.
\<close>

theorem DETRpose_pose_stages_batch_independent:
  assumes "DETRpose_pose_stages m training keep q X = Inr (att, pc, p6)"
    and "DETRpose_pose_stages m training' keep' q' X' = Inr (att', pc', p6')"
    and "dropout (bbox_attention m) = 0"
    and "length q = length X" and "b < length X"
    and "length q' = length X'" and "b' < length X'"
    and "q' ! b' = q ! b" and "X' ! b' = X ! b"
  shows "att ! b = MHAttentionMap_block (bbox_attention m) (q ! b) (X ! b)
         \<and> pc ! b = map (class_branch (pose_head m))
                       (cat_features (refine_features (pose_head m) (X ! b)) (att ! b))
         \<and> p6 ! b = map (map (pose_branch (pose_head m)))
                       (cat_features (refine_features (pose_head m) (X ! b)) (att ! b))
         \<and> att' ! b' = att ! b \<and> pc' ! b' = pc ! b \<and> p6' ! b' = p6 ! b"
proof -
  have one: "a ! i = MHAttentionMap_block (bbox_attention m) (u ! i) (Y ! i)
      \<and> c ! i = map (class_branch (pose_head m))
                   (cat_features (refine_features (pose_head m) (Y ! i)) (a ! i))
      \<and> p ! i = map (map (pose_branch (pose_head m)))
                   (cat_features (refine_features (pose_head m) (Y ! i)) (a ! i))"
    if r: "DETRpose_pose_stages m tr kp u Y = Inr (a, c, p)"
      and l: "length u = length Y" and i: "i < length Y"
    for tr kp u Y a c p i
  proof -
    from r have af: "MHAttentionMap_forward (bbox_attention m) tr kp u Y = Inr a"
      and hf: "PoseHeadSmallLinear_forward (pose_head m) Y a = Inr (c, p)"
      by (auto simp: DETRpose_pose_stages_def split: sum.splits)
    from assms(3) have d: "dropout (bbox_attention m) = 0 \<or> \<not> tr" by simp
    from MHAttentionMap_forward_block[OF af d l i]
    have 1: "a ! i = MHAttentionMap_block (bbox_attention m) (u ! i) (Y ! i)" by simp
    note f = PoseHead_forward_Inr[OF hf]
    have fb: "PoseHead_fused (pose_head m) Y a ! i
        = cat_features (refine_features (pose_head m) (Y ! i)) (a ! i)"
      using fused_nth[OF f(3) i] .
    have lb: "i < length (PoseHead_fused (pose_head m) Y a)"
      using length_fused[OF f(3)] i by simp
    have 2: "c ! i = map (class_branch (pose_head m))
                       (cat_features (refine_features (pose_head m) (Y ! i)) (a ! i))"
      using f(1) lb fb by simp
    have 3: "p ! i = map (map (pose_branch (pose_head m)))
                       (cat_features (refine_features (pose_head m) (Y ! i)) (a ! i))"
      using f(2) lb fb by simp
    from 1 2 3 show ?thesis by blast
  qed
  note x = one[OF assms(1,4,5)]
  note y = one[OF assms(2,6,7)]
  from x y assms(8,9) show ?thesis by simp
qed

theorem DETRpose_pose_stages_batch_independent_witness:
  "DETRpose_pose_stages detrpose_example True keep_all queries_example features_example
     = Inr (attention_batch_example, [[[1/2, 1/2]], [[1/2, 1/2]]],
            [[[replicate 6 32, replicate 6 32]], [[replicate 6 16, replicate 6 48]]])
   \<and> DETRpose_pose_stages detrpose_example False keep_all [[replicate 8 0]]
        model_features_example
       = Inr ([[replicate 8 [1/16, 1/16]]], [[[1/2, 1/2]]],
              [[[replicate 6 32, replicate 6 32]]])
   \<and> dropout (bbox_attention detrpose_example) = 0
   \<and> length queries_example = 2 \<and> length features_example = 2
   \<and> [[replicate 8 0]] ! 0 = queries_example ! 0
   \<and> model_features_example ! 0 = features_example ! 0
   \<and> features_example ! 1 \<noteq> features_example ! 0
   \<and> attention_batch_example ! 0
       = MHAttentionMap_block (bbox_attention detrpose_example) (queries_example ! 0)
           (features_example ! 0)
   \<and> [[replicate 8 [1/16, 1/16]]] ! 0 = attention_batch_example ! 0
   \<and> [[[replicate 6 32, replicate 6 32]]] ! 0
       = [[[replicate 6 32, replicate 6 32]], [[replicate 6 16, replicate 6 (48::real)]]] ! 0"
proof -
  have d: "dropout (bbox_attention detrpose_example) = 0"
    by (simp add: detrpose_example_fields attention_module_8_fields)
  have l: "length queries_example = length features_example" "0 < length features_example"
    "length [[replicate 8 (0::real)]] = length model_features_example"
    "0 < length model_features_example"
    "[[replicate 8 0]] ! 0 = queries_example ! 0"
    "model_features_example ! 0 = features_example ! 0"
    by (simp_all add: queries_example_def features_example_def model_features_example_def)
  have s: "length queries_example = 2" "length features_example = 2"
    "features_example ! 1 \<noteq> features_example ! 0"
    by (simp_all add: queries_example_def features_example_def)
  from DETRpose_pose_stages_batch_independent[OF detrpose_example_stages_batch[of True keep_all]
      detrpose_example_stages[of False keep_all] d l]
  have "attention_batch_example ! 0
       = MHAttentionMap_block (bbox_attention detrpose_example) (queries_example ! 0)
           (features_example ! 0)
   \<and> [[replicate 8 [1/16, 1/16]]] ! 0 = attention_batch_example ! 0
   \<and> [[[replicate 6 32, replicate 6 32]]] ! 0
       = [[[replicate 6 32, replicate 6 32]], [[replicate 6 16, replicate 6 (48::real)]]] ! 0"
    by blast
  with detrpose_example_stages_batch[of True keep_all]
    detrpose_example_stages[of False keep_all] d l(5,6) s
  show ?thesis by blast
qed

text \<open>
  The check of the group normalisation on one model of 8 channels: a batch of one is
  refused, a batch of two is not.
\<close>

lemma pose_head_example_single_value:
  "PoseHeadSmallLinear_forward pose_head_example [[replicate 8 1]] attention = Inl ValueError"
  by (simp add: PoseHeadSmallLinear_forward_def pose_head_example_fields nn_Linear_wf
      nn_Linear_dims is_tensor3_def is_mat_def dim1_def last_dim_is_def)

lemma pose_head_example_two_single_values:
  "\<exists>x_c x_p. PoseHeadSmallLinear_forward pose_head_example
      [[replicate 8 1], [replicate 8 1]] [[replicate 8 [1]], [replicate 8 [1]]] = Inr (x_c, x_p)"
  by (rule PoseHeadSmallLinear_forward_returns[OF
        PoseHeadSmallLinear_init_arch[OF pose_head_example_init]])
     (simp_all add: is_tensor3_def is_tensor4_def is_mat_def dim1_def last_dim_is_def
        cat_ok_def rep8)

end
